theory Spec2Isabelle
  imports Complex_Main "HOL-Library.Char_ord" "HOL-Library.List_Lexorder"
begin

section \<open>Errors and string formatting\<close>

text \<open>
  Every \<^verbatim>\<open>raise\<close> of the Python source is a value of \<open>error\<close>; a method that can raise
  returns \<open>error + 'a\<close> with \<open>Inl\<close> the exception. The repository raises \<^verbatim>\<open>ValueError\<close>
  with a message everywhere; the other constructors are exceptions raised by the
  interpreter or by numpy inside the modelled statements.
\<close>

datatype error =
    ValueError string
  | TypeError
  | IndexError
  | ZeroDivisionError
  | AttributeError
  | IOError

text \<open>Python's \<^verbatim>\<open>'%d' % n\<close> and \<^verbatim>\<open>'{}'.format(n)\<close> on a non-negative integer.\<close>

definition digit_char :: "nat \<Rightarrow> char" where
  "digit_char d = char_of (48 + d)"

fun str_nat :: "nat \<Rightarrow> string" where
  "str_nat n = (if n < 10 then [digit_char n] else str_nat (n div 10) @ [digit_char (n mod 10)])"

declare str_nat.simps [simp del]

section \<open>Labelled tables (pandas DataFrame)\<close>

text \<open>
  A metadata table has row labels (\<open>index\<close>) and named columns, each column holding one
  cell per row. A cell is \<open>None\<close> where pandas holds the undefined placeholder (NaN).
\<close>

type_synonym cell = "string option"

record frame =
  index :: "string list"
  columns :: "(string \<times> cell list) list"

definition column_names :: "frame \<Rightarrow> string list" where
  "column_names f = map fst (columns f)"

text \<open>\<^verbatim>\<open>df.reindex(labels)\<close>: one row per requested label, in the requested order; a label
  the table does not have gives a row of undefined cells. pandas refuses to reindex a
  table whose own index has duplicate labels (unless the two indexes are equal).\<close>

definition reindex_column :: "string list \<Rightarrow> string list \<Rightarrow> cell list \<Rightarrow> cell list" where
  "reindex_column old_index new_index vs =
     map (\<lambda>l. case map_of (zip old_index vs) l of None \<Rightarrow> None | Some v \<Rightarrow> v) new_index"

definition reindex :: "frame \<Rightarrow> string list \<Rightarrow> error + frame" where
  "reindex f labels =
     (if index f = labels then Inr f
      else if \<not> distinct (index f)
        then Inl (ValueError ''cannot reindex on an axis with duplicate labels'')
      else Inr \<lparr>index = labels,
                columns = map (\<lambda>(c, vs). (c, reindex_column (index f) labels vs)) (columns f)\<rparr>)"

text \<open>\<^verbatim>\<open>a.difference(b)\<close> on two column indexes: the labels of \<open>a\<close> not in \<open>b\<close>, unique and
  sorted.\<close>

definition difference :: "string list \<Rightarrow> string list \<Rightarrow> string list" where
  "difference a b = sort (remdups (filter (\<lambda>c. c \<notin> set b) a))"

text \<open>\<^verbatim>\<open>df.loc[:, cols]\<close> for column labels that the table has.\<close>

definition loc_columns :: "frame \<Rightarrow> string list \<Rightarrow> frame" where
  "loc_columns f cols =
     \<lparr>index = index f,
      columns = concat (map (\<lambda>c. filter (\<lambda>(c', vs). c' = c) (columns f)) cols)\<rparr>"

text \<open>\<^verbatim>\<open>pd.concat((f, g))\<close> with the default \<^verbatim>\<open>axis=0\<close> and outer join: the rows of \<open>g\<close>
  are appended below the rows of \<open>f\<close>; the columns are the union of both tables'
  columns, and a table that lacks a column contributes undefined cells to it.\<close>

definition column_or_nan :: "frame \<Rightarrow> string \<Rightarrow> cell list" where
  "column_or_nan f c =
     (case map_of (columns f) c of None \<Rightarrow> replicate (length (index f)) None | Some vs \<Rightarrow> vs)"

definition concat_axis0 :: "frame \<Rightarrow> frame \<Rightarrow> frame" where
  "concat_axis0 f g =
     \<lparr>index = index f @ index g,
      columns = map (\<lambda>c. (c, column_or_nan f c @ column_or_nan g c))
                  (column_names f @ filter (\<lambda>c. c \<notin> set (column_names f)) (column_names g))\<rparr>"

section \<open>The expression store (InferelatorData over AnnData)\<close>

text \<open>
  The numeric type of the matrix is a parameter \<open>'a\<close>; arithmetic on it is the
  arithmetic of that type. \<open>dtype\<close> is the numpy dtype tag the source branches on.
\<close>

datatype dtype = Int16 | Int32 | Int64 | Float32 | Float64

definition is_float_dtype :: "dtype \<Rightarrow> bool" where
  "is_float_dtype d = (d = Float32 \<or> d = Float64)"

datatype fmt = CSR | CSC

text \<open>
  The backing matrix \<^verbatim>\<open>_adata.X\<close>: a dense array given by its rows, or a compressed sparse
  matrix in scipy's layout (\<^verbatim>\<open>data\<close>, \<^verbatim>\<open>indices\<close>, \<^verbatim>\<open>indptr\<close>): the stored entries of
  major slice \<open>i\<close> (a row for CSR, a column for CSC) are the positions
  \<open>indptr ! i ..< indptr ! (i + 1)\<close> of \<open>data\<close>, and \<open>indices\<close> holds their minor index.
\<close>

datatype 'a matrix =
    Dense "'a list list"
  | Sparse fmt "'a list" "nat list" "nat list"

record 'a anndata =
  X :: "'a matrix"
  X_dtype :: dtype
  obs :: frame
  var :: frame
  uns_trim_gene_list :: "string list option"

definition obs_names :: "'a anndata \<Rightarrow> string list" where
  "obs_names a = index (obs a)"

definition var_names :: "'a anndata \<Rightarrow> string list" where
  "var_names a = index (var a)"

definition n_obs :: "'a anndata \<Rightarrow> nat" where
  "n_obs a = length (obs_names a)"

definition n_vars :: "'a anndata \<Rightarrow> nat" where
  "n_vars a = length (var_names a)"

definition is_sparse :: "'a anndata \<Rightarrow> bool" where
  "is_sparse a = (case X a of Dense _ \<Rightarrow> False | Sparse _ _ _ _ \<Rightarrow> True)"

text \<open>
  AnnData objects live in a heap (a list indexed by address), so that rebinding
  \<^verbatim>\<open>self._adata\<close> to a fresh object is distinguishable from mutating the object in place.
  An \<open>inferelator_data\<close> value is the Python object: the address held in \<^verbatim>\<open>_adata\<close> and
  the flag \<^verbatim>\<open>_is_integer\<close>.
\<close>

type_synonym 'a heap = "'a anndata list"

record inferelator_data =
  adata :: nat
  is_integer :: bool

definition get_adata :: "'a heap \<Rightarrow> inferelator_data \<Rightarrow> error + 'a anndata" where
  "get_adata h self = (if adata self < length h then Inr (h ! adata self) else Inl AttributeError)"

definition put_adata :: "'a heap \<Rightarrow> inferelator_data \<Rightarrow> 'a anndata \<Rightarrow> 'a heap" where
  "put_adata h self a = h[adata self := a]"

definition alloc :: "'a heap \<Rightarrow> 'a anndata \<Rightarrow> nat \<times> 'a heap" where
  "alloc h a = (length h, h @ [a])"

definition bind :: "error + 'a \<Rightarrow> ('a \<Rightarrow> error + 'b) \<Rightarrow> error + 'b" where
  "bind m f = (case m of Inl e \<Rightarrow> Inl e | Inr x \<Rightarrow> f x)"

subsection \<open>Metadata setters\<close>

text \<open>AnnData's own setters for \<^verbatim>\<open>obs\<close> and \<^verbatim>\<open>var\<close> refuse a table whose number of rows
  is not the matrix's.\<close>

definition set_obs :: "'a anndata \<Rightarrow> frame \<Rightarrow> error + 'a anndata" where
  "set_obs a df =
     (if length (index df) \<noteq> n_obs a
      then Inl (ValueError ''Length of passed value for obs_names does not match the shape'')
      else Inr (a\<lparr>obs := df\<rparr>))"

definition set_var :: "'a anndata \<Rightarrow> frame \<Rightarrow> error + 'a anndata" where
  "set_var a df =
     (if length (index df) \<noteq> n_vars a
      then Inl (ValueError ''Length of passed value for var_names does not match the shape'')
      else Inr (a\<lparr>var := df\<rparr>))"

text \<open>\<^verbatim>\<open>InferelatorData.meta_data\<close> setter (data.py, lines 141-154).\<close>

definition meta_data_setter ::
  "'a heap \<Rightarrow> inferelator_data \<Rightarrow> frame \<Rightarrow> error + 'a heap" where
  "meta_data_setter h self new_meta_data =
     bind (get_adata h self) (\<lambda>a.
     bind (reindex new_meta_data (obs_names a)) (\<lambda>new_meta_data.
     bind (if length (columns (obs a)) > 0
           then (let keep_columns = difference (column_names (obs a)) (column_names new_meta_data)
                 in set_obs a (concat_axis0 new_meta_data (loc_columns (obs a) keep_columns)))
           else set_obs a new_meta_data) (\<lambda>a'.
     Inr (put_adata h self a'))))"

text \<open>\<^verbatim>\<open>new.index.intersection(var.index)\<close>: the labels of both, once each.\<close>

definition intersection :: "string list \<Rightarrow> string list \<Rightarrow> string list" where
  "intersection a b = remdups (filter (\<lambda>l. l \<in> set b) a)"

text \<open>\<^verbatim>\<open>InferelatorData.gene_data\<close> setter (data.py, lines 160-177).\<close>

definition gene_data_setter ::
  "'a heap \<Rightarrow> inferelator_data \<Rightarrow> frame \<Rightarrow> error + 'a heap" where
  "gene_data_setter h self new_gene_data =
     bind (get_adata h self) (\<lambda>a.
     (let a = a\<lparr>uns_trim_gene_list := Some (intersection (index new_gene_data) (index (var a)))\<rparr>
      in
     bind (reindex new_gene_data (var_names a)) (\<lambda>new_gene_data.
     bind (if length (columns (var a)) > 0
           then (let keep_columns = difference (column_names (var a)) (column_names new_gene_data)
                 in set_var a (concat_axis0 new_gene_data (loc_columns (var a) keep_columns)))
           else set_var a new_gene_data) (\<lambda>a'.
     Inr (put_adata h self a')))))"

subsection \<open>Array helpers (numpy, scipy.sparse)\<close>

text \<open>\<^verbatim>\<open>index.isin(labels)\<close>, \<^verbatim>\<open>np.sum\<close> of a boolean mask, \<^verbatim>\<open>a &= b\<close>, and boolean-mask
  selection.\<close>

definition isin :: "string list \<Rightarrow> string list \<Rightarrow> bool list" where
  "isin labels wanted = map (\<lambda>g. g \<in> set wanted) labels"

definition count_true :: "bool list \<Rightarrow> nat" where
  "count_true m = length (filter (\<lambda>b. b) m)"

definition mask_and :: "bool list \<Rightarrow> bool list \<Rightarrow> bool list" where
  "mask_and a b = map (\<lambda>(x, y). x \<and> y) (zip a b)"

definition select :: "bool list \<Rightarrow> 'b list \<Rightarrow> 'b list" where
  "select keep xs = map fst (filter snd (zip xs keep))"

text \<open>\<^verbatim>\<open>np.max\<close> and \<^verbatim>\<open>np.min\<close> of a non-empty vector (the callers raise on an empty one).\<close>

fun np_max :: "'a::linorder list \<Rightarrow> 'a" where
  "np_max (x # xs) = fold max xs x"

fun np_min :: "'a::linorder list \<Rightarrow> 'a" where
  "np_min (x # xs) = fold min xs x"

definition dense_column :: "'a list list \<Rightarrow> nat \<Rightarrow> 'a list" where
  "dense_column rows j = map (\<lambda>r. r ! j) rows"

text \<open>The stored entries of major slice \<open>i\<close> of a compressed matrix, all slices, and the
  \<open>indptr\<close> array of a list of slice lengths.\<close>

definition segment :: "nat list \<Rightarrow> 'b list \<Rightarrow> nat \<Rightarrow> 'b list" where
  "segment indptr xs i = take (indptr ! (i + 1) - indptr ! i) (drop (indptr ! i) xs)"

definition segments :: "nat list \<Rightarrow> 'b list \<Rightarrow> 'b list list" where
  "segments indptr xs = map (segment indptr xs) [0..<length indptr - 1]"

fun offsets :: "nat \<Rightarrow> nat list \<Rightarrow> nat list" where
  "offsets s [] = [s]"
| "offsets s (l # ls) = s # offsets (s + l) ls"

text \<open>\<^verbatim>\<open>X.getnnz(axis)\<close> along the compressed axis (\<^verbatim>\<open>axis=1\<close> for CSR, \<^verbatim>\<open>axis=0\<close> for CSC):
  the differences of \<open>indptr\<close>.\<close>

definition getnnz_major :: "nat list \<Rightarrow> nat list" where
  "getnnz_major indptr = map (\<lambda>i. indptr ! (i + 1) - indptr ! i) [0..<length indptr - 1]"

text \<open>\<^verbatim>\<open>np.repeat(v, counts)\<close>: one count for each element, or a single count that is
  broadcast to all of them.\<close>

definition np_repeat :: "'b list \<Rightarrow> nat list \<Rightarrow> error + 'b list" where
  "np_repeat v counts =
     (if length counts = length v
      then Inr (concat (map (\<lambda>(c, x). replicate c x) (zip counts v)))
      else if length counts = 1
      then Inr (concat (map (\<lambda>x. replicate (counts ! 0) x) v))
      else Inl (ValueError ''operands could not be broadcast together''))"

text \<open>The stored values of gene column \<open>j\<close>: a slice of \<open>data\<close> for CSC, the entries whose
  minor index is \<open>j\<close> for CSR.\<close>

definition sparse_column :: "fmt \<Rightarrow> 'a list \<Rightarrow> nat list \<Rightarrow> nat list \<Rightarrow> nat \<Rightarrow> 'a list" where
  "sparse_column f data indices indptr j =
     (case f of
        CSC \<Rightarrow> segment indptr data j
      | CSR \<Rightarrow> map fst (filter (\<lambda>(v, c). c = j) (zip data indices)))"

text \<open>\<^verbatim>\<open>X.min(axis=0)\<close> and \<^verbatim>\<open>X.max(axis=0)\<close> of a sparse matrix with \<open>n\<close> rows, in canonical
  format: the extremum of the stored values of the column, and of zero as well when
  the column has fewer than \<open>n\<close> stored values.\<close>

definition with_implicit_zero :: "nat \<Rightarrow> 'a::zero list \<Rightarrow> 'a list" where
  "with_implicit_zero n vals = (if length vals < n then 0 # vals else vals)"

definition sparse_col_min :: "nat \<Rightarrow> 'a::{linorder,zero} list \<Rightarrow> 'a" where
  "sparse_col_min n vals = np_min (with_implicit_zero n vals)"

definition sparse_col_max :: "nat \<Rightarrow> 'a::{linorder,zero} list \<Rightarrow> 'a" where
  "sparse_col_max n vals = np_max (with_implicit_zero n vals)"

text \<open>The format invariant that scipy keeps for a compressed matrix with \<open>n\<close> major
  slices: \<open>indptr\<close> has \<open>n + 1\<close> entries, starts at zero, does not decrease and ends at the
  number of stored entries.\<close>

definition csx_wf :: "nat \<Rightarrow> 'b list \<Rightarrow> nat list \<Rightarrow> nat list \<Rightarrow> bool" where
  "csx_wf n data indices indptr =
     (length indptr = n + 1 \<and> indptr ! 0 = 0 \<and> sorted indptr \<and> indptr ! n = length data
      \<and> length indices = length data)"

text \<open>What a matrix holds at row \<open>i\<close>, column \<open>j\<close>: the values stored for that position
  (for a sparse backing none, at an implicit zero), and the number the position stands
  for, which is their sum, as in scipy's conversion to a dense array.\<close>

definition stored_values :: "'a matrix \<Rightarrow> nat \<Rightarrow> nat \<Rightarrow> 'a list" where
  "stored_values x i j =
     (case x of
        Dense rows \<Rightarrow> [rows ! i ! j]
      | Sparse CSR data indices indptr \<Rightarrow>
          map fst (filter (\<lambda>(v, c). c = j) (zip (segment indptr data i) (segment indptr indices i)))
      | Sparse CSC data indices indptr \<Rightarrow>
          map fst (filter (\<lambda>(v, r). r = i) (zip (segment indptr data j) (segment indptr indices j))))"

definition entry :: "'a::monoid_add matrix \<Rightarrow> nat \<Rightarrow> nat \<Rightarrow> 'a" where
  "entry x i j = sum_list (stored_values x i j)"


text \<open>Column selection \<^verbatim>\<open>X[:, keep]\<close> on each backing.\<close>

definition subset_columns :: "'a matrix \<Rightarrow> bool list \<Rightarrow> 'a matrix" where
  "subset_columns x keep =
     (case x of
        Dense rows \<Rightarrow> Dense (map (select keep) rows)
      | Sparse CSC data indices indptr \<Rightarrow>
          (let ds = select keep (segments indptr data);
               ixs = select keep (segments indptr indices)
           in Sparse CSC (concat ds) (concat ixs) (offsets 0 (map length ds)))
      | Sparse CSR data indices indptr \<Rightarrow>
          (let rows = map (\<lambda>r. filter (\<lambda>(v, c). c < length keep \<and> keep ! c) r)
                        (segments indptr (zip data indices))
           in Sparse CSR (concat (map (map fst) rows))
                (concat (map (map (\<lambda>(v, c). count_true (take c keep))) rows))
                (offsets 0 (map length rows))))"

definition subset_frame_rows :: "frame \<Rightarrow> bool list \<Rightarrow> frame" where
  "subset_frame_rows f keep =
     \<lparr>index = select keep (index f),
      columns = map (\<lambda>(c, vs). (c, select keep vs)) (columns f)\<rparr>"

text \<open>\<^verbatim>\<open>adata[:, keep]\<close>: the matrix and the gene table restricted to the kept genes; the
  sample table and \<^verbatim>\<open>uns\<close> are carried over.\<close>

definition subset_vars :: "'a anndata \<Rightarrow> bool list \<Rightarrow> 'a anndata" where
  "subset_vars a keep = a\<lparr>X := subset_columns (X a) keep, var := subset_frame_rows (var a) keep\<rparr>"

subsection \<open>trim_genes\<close>

text \<open>\<^verbatim>\<open>np.finfo(dtype).eps\<close>: numpy defines it for floating dtypes only; its value for
  those is the parameter \<open>eps\<close>.\<close>

definition np_finfo_eps :: "(dtype \<Rightarrow> 'a) \<Rightarrow> dtype \<Rightarrow> error + 'a" where
  "np_finfo_eps eps d =
     (if is_float_dtype d then Inr (eps d) else Inl (ValueError ''data type not inexact''))"

text \<open>The constant-gene mask of lines 311-317. Dense: \<^verbatim>\<open>np.apply_along_axis\<close> of
  \<^verbatim>\<open>max - min\<close> over the columns, compared with the tolerance \<^verbatim>\<open>comp\<close>. Sparse: \<^verbatim>\<open>getnnz(axis=0) > 0\<close>
  and \<^verbatim>\<open>min(axis=0) != max(axis=0)\<close>; \<^verbatim>\<open>comp\<close> is not used.\<close>

definition nonconstant_mask ::
  "'a::{linorder,zero,minus} \<Rightarrow> 'a anndata \<Rightarrow> error + bool list" where
  "nonconstant_mask comp_tol a =
     (case X a of
        Dense rows \<Rightarrow>
          (if n_vars a = 0
             then Inl (ValueError ''Cannot apply_along_axis when any iteration dimensions are 0'')
           else if rows = []
             then Inl (ValueError ''zero-size array to reduction operation maximum which has no identity'')
           else Inr (map (\<lambda>j. comp_tol < np_max (dense_column rows j) - np_min (dense_column rows j))
                       [0..<n_vars a]))
      | Sparse f data indices indptr \<Rightarrow>
          (let nnz_mask = map (\<lambda>j. 0 < length (sparse_column f data indices indptr j)) [0..<n_vars a]
           in if n_obs a = 0
                then Inl (ValueError ''zero-size array to reduction operation'')
              else Inr (mask_and nnz_mask
                         (map (\<lambda>j. sparse_col_min (n_obs a) (sparse_column f data indices indptr j)
                                   \<noteq> sparse_col_max (n_obs a) (sparse_column f data indices indptr j))
                            [0..<n_vars a]))))"

definition err_msg :: "nat \<Rightarrow> nat \<Rightarrow> string" where
  "err_msg lst v =
     ''No genes remain after trimming. ('' @ str_nat lst @ '' removed to match list, ''
       @ str_nat v @ '' removed for var=0)''"

text \<open>Lines 301-321 of \<^verbatim>\<open>trim_genes\<close>: the mask of the genes to keep, with the two counts
  \<^verbatim>\<open>list_trim\<close> and \<^verbatim>\<open>var_zero_trim\<close> that the error message reports.\<close>

definition keep_mask ::
  "(dtype \<Rightarrow> 'a::{linorder,zero,minus,times,numeral}) \<Rightarrow> bool \<Rightarrow> string list option \<Rightarrow>
     inferelator_data \<Rightarrow> 'a anndata \<Rightarrow> error + (bool list \<times> nat \<times> nat)" where
  "keep_mask eps remove_constant_genes trim_gene_list self a =
     (let keep_column_bool =
            (case trim_gene_list of
               Some l \<Rightarrow> isin (var_names a) l
             | None \<Rightarrow>
                 (case uns_trim_gene_list a of
                    Some l \<Rightarrow> isin (var_names a) l
                  | None \<Rightarrow> replicate (n_vars a) True));
          list_trim = n_vars a - count_true keep_column_bool
      in
     bind (if is_integer self then Inr 0
           else bind (np_finfo_eps eps (X_dtype a)) (\<lambda>e. Inr (e * 10))) (\<lambda>comp_tol.
     if remove_constant_genes
       then bind (nonconstant_mask comp_tol a) (\<lambda>m.
              (let keep = mask_and keep_column_bool m
               in Inr (keep, list_trim, n_vars a - count_true keep + list_trim)))
       else Inr (keep_column_bool, list_trim, 0)))"

text \<open>\<^verbatim>\<open>InferelatorData.trim_genes\<close> (data.py, lines 292-333). The last statement either
  leaves \<^verbatim>\<open>self._adata\<close> alone or binds it to a newly allocated copy of the column
  subset.\<close>

definition trim_genes ::
  "(dtype \<Rightarrow> 'a::{linorder,zero,minus,times,numeral}) \<Rightarrow> bool \<Rightarrow> string list option \<Rightarrow>
     'a heap \<Rightarrow> inferelator_data \<Rightarrow> error + ('a heap \<times> inferelator_data)" where
  "trim_genes eps remove_constant_genes trim_gene_list h self =
     bind (get_adata h self) (\<lambda>a.
     bind (keep_mask eps remove_constant_genes trim_gene_list self a)
       (\<lambda>(keep_column_bool, list_trim, var_zero_trim).
     if count_true keep_column_bool = 0
       then Inl (ValueError (err_msg list_trim var_zero_trim))
     else if count_true keep_column_bool = n_vars a
       then Inr (h, self)
     else (case alloc h (subset_vars a keep_column_bool) of
             (r, h') \<Rightarrow> Inr (h', self\<lparr>adata := r\<rparr>))))"

subsection \<open>Scaling: convert_to_float, divide, multiply\<close>

definition map_matrix :: "('a \<Rightarrow> 'a) \<Rightarrow> 'a matrix \<Rightarrow> 'a matrix" where
  "map_matrix g x =
     (case x of
        Dense rows \<Rightarrow> Dense (map (map g) rows)
      | Sparse f data indices indptr \<Rightarrow> Sparse f (map g data) indices indptr)"

text \<open>\<^verbatim>\<open>InferelatorData.convert_to_float\<close> (data.py, lines 276-290). \<open>cast\<close> is numpy's
  conversion of an integer value to the floating type of the same width.\<close>

definition convert_to_float ::
  "('a \<Rightarrow> 'a) \<Rightarrow> 'a heap \<Rightarrow> inferelator_data \<Rightarrow> error + ('a heap \<times> inferelator_data)" where
  "convert_to_float cast h self =
     bind (get_adata h self) (\<lambda>a.
     if is_float_dtype (X_dtype a) then Inr (h, self)
     else bind (if X_dtype a = Int32 then Inr Float32
                else if X_dtype a = Int64 then Inr Float64
                else Inl (ValueError ''Data is not float, int32, or int64'')) (\<lambda>d.
          Inr (put_adata h self (a\<lparr>X := map_matrix cast (X a), X_dtype := d\<rparr>),
               self\<lparr>is_integer := False\<rparr>)))"

text \<open>The value passed to \<^verbatim>\<open>divide\<close> or \<^verbatim>\<open>multiply\<close>: a Python number, or a numpy array
  of one or two dimensions.\<close>

datatype 'a operand = Scalar 'a | Array1 "'a list" | Array2 "'a list list"

text \<open>In-place \<^verbatim>\<open>xs op= ys\<close> on two vectors. numpy broadcasts the right operand to the
  shape of the left one, which is the output: an axis of the operand fits when it has the
  length of the output's axis or length one, and then its only element is used throughout.\<close>

definition inplace_vec :: "('a \<Rightarrow> 'a \<Rightarrow> 'a) \<Rightarrow> 'a list \<Rightarrow> 'a list \<Rightarrow> error + 'a list" where
  "inplace_vec f xs ys =
     (if length ys = length xs
      then Inr (map (\<lambda>(x, y). f x y) (zip xs ys))
      else if length ys = 1
      then Inr (map (\<lambda>x. f x (ys ! 0)) xs)
      else Inl (ValueError ''operands could not be broadcast together''))"

text \<open>\<^verbatim>\<open>X.data op= val\<close> on the stored entries of a sparse matrix.\<close>

definition inplace_data :: "('a \<Rightarrow> 'a \<Rightarrow> 'a) \<Rightarrow> 'a list \<Rightarrow> 'a operand \<Rightarrow> error + 'a list" where
  "inplace_data f data val =
     (case val of
        Scalar y \<Rightarrow> Inr (map (\<lambda>x. f x y) data)
      | Array1 v \<Rightarrow> inplace_vec f data v
      | Array2 m \<Rightarrow> Inl (ValueError ''non-broadcastable output operand''))"

text \<open>\<^verbatim>\<open>X op= val\<close>, \<^verbatim>\<open>X op= val[None, :]\<close> and \<^verbatim>\<open>X op= val[:, None]\<close> on a dense matrix
  with \<open>m\<close> columns. A one-dimensional operand runs along the columns; a two-dimensional
  one is broadcast on each axis on its own.\<close>

definition inplace_rows ::
  "('a \<Rightarrow> 'a \<Rightarrow> 'a) \<Rightarrow> 'a list list \<Rightarrow> 'a list \<Rightarrow> nat \<Rightarrow> error + 'a list list" where
  "inplace_rows f rows v m =
     (if length v = m
      then Inr (map (\<lambda>r. map (\<lambda>(x, y). f x y) (zip r v)) rows)
      else if length v = 1
      then Inr (map (map (\<lambda>x. f x (v ! 0))) rows)
      else Inl (ValueError ''operands could not be broadcast together''))"

definition inplace_cols ::
  "('a \<Rightarrow> 'a \<Rightarrow> 'a) \<Rightarrow> 'a list list \<Rightarrow> 'a list \<Rightarrow> error + 'a list list" where
  "inplace_cols f rows v =
     (if length v = length rows
      then Inr (map (\<lambda>(r, y). map (\<lambda>x. f x y) r) (zip rows v))
      else if length v = 1
      then Inr (map (map (\<lambda>x. f x (v ! 0))) rows)
      else Inl (ValueError ''operands could not be broadcast together''))"

definition broadcast_nth :: "'b list \<Rightarrow> nat \<Rightarrow> 'b" where
  "broadcast_nth ys i = (if length ys = 1 then ys ! 0 else ys ! i)"

definition inplace_dense ::
  "('a \<Rightarrow> 'a \<Rightarrow> 'a) \<Rightarrow> 'a list list \<Rightarrow> 'a operand \<Rightarrow> nat \<Rightarrow> error + 'a list list" where
  "inplace_dense f rows val m =
     (case val of
        Scalar y \<Rightarrow> Inr (map (map (\<lambda>x. f x y)) rows)
      | Array1 v \<Rightarrow> inplace_rows f rows v m
      | Array2 ys \<Rightarrow>
          (let b = (case ys of [] \<Rightarrow> 0 | r # _ \<Rightarrow> length r) in
           if (length ys = length rows \<or> length ys = 1) \<and> (b = m \<or> b = 1)
              \<and> (\<forall>r \<in> set ys. length r = b)
           then Inr (map (\<lambda>(i, r). map (\<lambda>(j, x). f x (broadcast_nth (broadcast_nth ys i) j))
                                        (zip [0..<length r] r))
                         (zip [0..<length rows] rows))
           else Inl (ValueError ''operands could not be broadcast together'')))"

text \<open>The body shared by \<^verbatim>\<open>divide\<close> (lines 395-416) and \<^verbatim>\<open>multiply\<close> (lines 418-439),
  which differ in the operator only; \<open>axis\<close> is \<open>None\<close> or an integer. The in-place
  operators act on a floating-point array whenever \<^verbatim>\<open>_is_integer\<close> agrees with the dtype;
  what numpy does when asked to write a floating-point result into an integer array is
  not modelled.\<close>

definition scale ::
  "('a \<Rightarrow> 'a \<Rightarrow> 'a) \<Rightarrow> ('a \<Rightarrow> 'a) \<Rightarrow> 'a heap \<Rightarrow> inferelator_data \<Rightarrow> 'a operand \<Rightarrow> int option \<Rightarrow>
     error + ('a heap \<times> inferelator_data)" where
  "scale f cast h self val axis =
     bind (if is_integer self then convert_to_float cast h self else Inr (h, self)) (\<lambda>(h, self).
     bind (get_adata h self) (\<lambda>a.
     bind (case X a of
             Sparse fm data indices indptr \<Rightarrow>
               (if axis = None
                  then bind (inplace_data f data val) (\<lambda>d. Inr (Sparse fm d indices indptr))
                else if (fm = CSR \<and> axis = Some 1) \<or> (fm = CSC \<and> axis = Some 0)
                  then (case val of
                          Array1 v \<Rightarrow>
                            (if (if axis \<noteq> Some 0 then n_obs a else n_vars a) \<noteq> length v
                             then Inl (ValueError ''Division array is not aligned'')
                             else bind (np_repeat v (getnnz_major indptr)) (\<lambda>rep.
                                  bind (inplace_vec f data rep) (\<lambda>d.
                                  Inr (Sparse fm d indices indptr))))
                        | _ \<Rightarrow> Inl (ValueError ''Division array is not aligned''))
                else Inl (ValueError ''axis = 1 only works for CSC & axis = 0 only works for CSR''))
           | Dense rows \<Rightarrow>
               (if axis = None
                  then bind (inplace_dense f rows val (n_vars a)) (\<lambda>r. Inr (Dense r))
                else if axis = Some 0
                  then (case val of
                          Scalar y \<Rightarrow> Inl TypeError
                        | Array1 v \<Rightarrow> bind (inplace_rows f rows v (n_vars a)) (\<lambda>r. Inr (Dense r))
                        | Array2 m \<Rightarrow> Inl (ValueError ''non-broadcastable output operand''))
                else if axis = Some 1
                  then (case val of
                          Scalar y \<Rightarrow> Inl TypeError
                        | Array1 v \<Rightarrow> bind (inplace_cols f rows v) (\<lambda>r. Inr (Dense r))
                        | Array2 m \<Rightarrow> Inl (ValueError ''non-broadcastable output operand''))
                else Inl (ValueError ''axis must be 0, 1 or None''))) (\<lambda>x.
     Inr (put_adata h self (a\<lparr>X := x\<rparr>), self))))"

definition divide ::
  "('a::inverse \<Rightarrow> 'a) \<Rightarrow> 'a heap \<Rightarrow> inferelator_data \<Rightarrow> 'a operand \<Rightarrow> int option \<Rightarrow>
     error + ('a heap \<times> inferelator_data)" where
  "divide cast h self div_val axis = scale (\<lambda>x y. x / y) cast h self div_val axis"

definition multiply ::
  "('a::times \<Rightarrow> 'a) \<Rightarrow> 'a heap \<Rightarrow> inferelator_data \<Rightarrow> 'a operand \<Rightarrow> int option \<Rightarrow>
     error + ('a heap \<times> inferelator_data)" where
  "multiply cast h self mult_val axis = scale (\<lambda>x y. x * y) cast h self mult_val axis"

subsection \<open>transform\<close>

text \<open>The function passed to \<^verbatim>\<open>transform\<close>: what it does to a value, and the dtype of
  its result on an input of a given dtype (numpy functions act elementwise on arrays
  and on scalars alike).\<close>

record 'a ufunc =
  call :: "'a \<Rightarrow> 'a"
  result_dtype :: "dtype \<Rightarrow> dtype"

text \<open>The probe \<^verbatim>\<open>type(func(X[0, 0])) == X.dtype\<close>; \<^verbatim>\<open>X[0, 0]\<close> raises on an empty
  matrix.\<close>

definition probe :: "'a ufunc \<Rightarrow> 'a list list \<Rightarrow> dtype \<Rightarrow> error + bool" where
  "probe func rows d =
     (case rows of
        [] \<Rightarrow> Inl IndexError
      | r # _ \<Rightarrow> (if r = [] then Inl IndexError else Inr (result_dtype func d = d)))"

text \<open>The bounds of chunk \<open>i\<close> as line 390 computes them:
  \<^verbatim>\<open>start, stop = i * chunksize, min(i + 1 * chunksize, shape[0])\<close>.\<close>

definition chunk_bounds :: "nat \<Rightarrow> nat \<Rightarrow> nat \<Rightarrow> nat \<times> nat" where
  "chunk_bounds i chunksize n = (i * chunksize, min (i + 1 * chunksize) n)"

text \<open>Line 391 for one chunk, \<^verbatim>\<open>X[start:stop, :] = func(X[start:stop, :])\<close>, and the loop
  over the chunk numbers \<open>ks\<close>.\<close>

definition transform_chunk :: "('a \<Rightarrow> 'a) \<Rightarrow> nat \<Rightarrow> 'a list list \<Rightarrow> nat \<Rightarrow> 'a list list" where
  "transform_chunk g chunksize rows i =
     (let (start, stop) = chunk_bounds i chunksize (length rows)
      in map (\<lambda>(k, r). if start \<le> k \<and> k < stop then map g r else r)
           (zip [0..<length rows] rows))"

definition chunk_loop :: "('a \<Rightarrow> 'a) \<Rightarrow> nat \<Rightarrow> 'a list list \<Rightarrow> nat list \<Rightarrow> 'a list list" where
  "chunk_loop g chunksize rows ks = foldl (transform_chunk g chunksize) rows ks"

text \<open>\<^verbatim>\<open>range(np.ceil(shape[0] / chunksize))\<close> of line 389: the quotient is a true
  division, \<^verbatim>\<open>np.ceil\<close> returns a float, and \<^verbatim>\<open>range\<close> refuses a float, so no chunk
  number is ever produced.\<close>

definition chunk_range :: "nat \<Rightarrow> int \<Rightarrow> error + nat list" where
  "chunk_range n chunksize = (if chunksize = 0 then Inl ZeroDivisionError else Inl TypeError)"

text \<open>\<^verbatim>\<open>InferelatorData.transform\<close> (data.py, lines 375-393). The matrix of the model is
  two-dimensional, so the test \<^verbatim>\<open>X.ndim == 1\<close> is false.\<close>

definition transform ::
  "'a::{plus,one} ufunc \<Rightarrow> bool \<Rightarrow> bool \<Rightarrow> int \<Rightarrow> 'a heap \<Rightarrow> inferelator_data \<Rightarrow>
     error + ('a heap \<times> inferelator_data)" where
  "transform func add_pseudocount memory_efficient chunksize h self =
     bind (get_adata h self) (\<lambda>a.
     (let x = (if add_pseudocount then map_matrix (\<lambda>v. v + 1) (X a) else X a);
          d = X_dtype a
      in
     bind (case x of
             Sparse fm data indices indptr \<Rightarrow>
               Inr (Sparse fm (map (call func) data) indices indptr, result_dtype func d)
           | Dense rows \<Rightarrow>
               (if is_integer self
                  then Inr (Dense (map (map (call func)) rows), result_dtype func d)
                else bind (probe func rows d) (\<lambda>same.
                  if \<not> memory_efficient \<and> same
                    then Inr (Dense (map (map (call func)) rows), d)
                  else if memory_efficient \<and> same
                    then bind (chunk_range (length rows) chunksize) (\<lambda>ks.
                           Inr (Dense (chunk_loop (call func) (nat chunksize) rows ks), d))
                  else Inr (Dense (map (map (call func)) rows), result_dtype func d)))) (\<lambda>(x, d).
     Inr (put_adata h self (a\<lparr>X := x, X_dtype := d\<rparr>), self))))"

section \<open>The workflow (inferelator/workflow.py, inferelator_ng/workflow.py)\<close>

text \<open>A loaded table (expression, priors, gold standard): row labels, column labels and
  values.\<close>

record 'v dataframe =
  df_index :: "string list"
  df_columns :: "string list"
  df_values :: "'v list list"

definition shape :: "'v dataframe \<Rightarrow> nat \<times> nat" where
  "shape df = (length (df_index df), length (df_columns df))"

definition str_shape :: "nat \<times> nat \<Rightarrow> string" where
  "str_shape sh = ''('' @ str_nat (fst sh) @ '', '' @ str_nat (snd sh) @ '')''"

text \<open>The fields of \<^verbatim>\<open>WorkflowBase\<close> that the modelled methods read or write; \<open>printed\<close> is
  what \<^verbatim>\<open>utils.Debug.vprint\<close> has printed at level 0.\<close>

record 'v workflow =
  random_seed :: nat
  num_bootstraps :: nat
  response :: "'v dataframe"
  priors_file :: string
  gold_standard_file :: string
  priors_data :: "'v dataframe option"
  gold_standard :: "'v dataframe option"
  split_priors_for_gold_standard :: bool
  split_gold_standard_for_crossvalidation :: bool
  printed :: "string list"

subsection \<open>get_bootstraps\<close>

text \<open>
  numpy's generator is a parameter: \<open>seeding\<close> is \<^verbatim>\<open>np.random.RandomState(seed=...)\<close>, which
  refuses a seed outside its range, and \<open>randint g n\<close> is one draw from \<open>[0, n)\<close>
  together with the generator's next state. \<^verbatim>\<open>choice(a, size=(b, n))\<close> makes \<open>b * n\<close>
  draws of a position of \<open>a\<close> in row-major order; \<open>a\<close> is \<^verbatim>\<open>range(n)\<close>, so the element
  at a position is the position itself.
\<close>

fun draws :: "('g \<Rightarrow> nat \<Rightarrow> nat \<times> 'g) \<Rightarrow> 'g \<Rightarrow> nat \<Rightarrow> nat \<Rightarrow> nat list" where
  "draws randint g n 0 = []"
| "draws randint g n (Suc k) = (case randint g n of (x, g') \<Rightarrow> x # draws randint g' n k)"

fun reshape :: "nat \<Rightarrow> nat \<Rightarrow> 'b list \<Rightarrow> 'b list list" where
  "reshape 0 n xs = []"
| "reshape (Suc b) n xs = take n xs # reshape b n (drop n xs)"

definition choice :: "('g \<Rightarrow> nat \<Rightarrow> nat \<times> 'g) \<Rightarrow> 'g \<Rightarrow> nat \<Rightarrow> nat \<times> nat \<Rightarrow> nat list list" where
  "choice randint g pop_size sz =
     reshape (fst sz) (snd sz) (draws randint g pop_size (fst sz * snd sz))"

text \<open>\<^verbatim>\<open>WorkflowBase.get_bootstraps\<close> (inferelator/workflow.py, lines 311-317; the same
  text in inferelator_ng/workflow.py, lines 219-225).\<close>

definition get_bootstraps ::
  "(nat \<Rightarrow> error + 'g) \<Rightarrow> ('g \<Rightarrow> nat \<Rightarrow> nat \<times> 'g) \<Rightarrow> 'v workflow \<Rightarrow> error + nat list list" where
  "get_bootstraps seeding randint self =
     (let col_range = snd (shape (response self))
      in bind (seeding (random_seed self)) (\<lambda>random_state.
         Inr (choice randint random_state col_range (num_bootstraps self, snd (shape (response self))))))"

subsection \<open>set_gold_standard_and_priors\<close>

text \<open>The collaborators of the method that are not part of the modelled files: the
  file reader, the prior/gold-standard splitting functions, and
  \<^verbatim>\<open>Validator.index_values_unique\<close>, which either returns or raises.\<close>

record 'v collaborators =
  input_dataframe :: "string \<Rightarrow> error + 'v dataframe"
  split_for_cv :: "'v dataframe \<Rightarrow> nat \<Rightarrow> error + ('v dataframe \<times> 'v dataframe)"
  remove_prior_circularity :: "'v dataframe \<Rightarrow> 'v dataframe \<Rightarrow> error + ('v dataframe \<times> 'v dataframe)"
  index_values_unique :: "string list \<Rightarrow> error + bool"

definition vprint :: "string \<Rightarrow> 'v workflow \<Rightarrow> 'v workflow" where
  "vprint msg self = self\<lparr>printed := printed self @ [msg]\<rparr>"

definition the_frame :: "'v dataframe option \<Rightarrow> error + 'v dataframe" where
  "the_frame d = (case d of None \<Rightarrow> Inl AttributeError | Some df \<Rightarrow> Inr df)"

text \<open>\<^verbatim>\<open>split_priors_into_gold_standard\<close> (lines 190-204).\<close>

definition split_priors_into_gold_standard ::
  "'v collaborators \<Rightarrow> 'v workflow \<Rightarrow> error + 'v workflow" where
  "split_priors_into_gold_standard env self =
     (let self = (if gold_standard self \<noteq> None
                  then vprint ''Existing gold standard is being replaced by a split from the prior'' self
                  else self)
      in bind (the_frame (priors_data self)) (\<lambda>p.
         bind (split_for_cv env p (random_seed self)) (\<lambda>(pr, gs).
         Inr (vprint (''Prior split into a prior '' @ str_shape (shape pr)
                        @ '' and a gold standard '' @ str_shape (shape gs))
                (self\<lparr>priors_data := Some pr, gold_standard := Some gs\<rparr>)))))"

text \<open>\<^verbatim>\<open>cross_validate_gold_standard\<close> (lines 206-221).\<close>

definition cross_validate_gold_standard ::
  "'v collaborators \<Rightarrow> 'v workflow \<Rightarrow> error + 'v workflow" where
  "cross_validate_gold_standard env self =
     bind (the_frame (priors_data self)) (\<lambda>p.
     bind (the_frame (gold_standard self)) (\<lambda>g.
     (let self = vprint (''Resampling prior '' @ str_shape (shape p)
                           @ '' and gold standard '' @ str_shape (shape g)) self
      in bind (split_for_cv env g (random_seed self)) (\<lambda>(_, g).
         bind (remove_prior_circularity env p g) (\<lambda>(p, g).
         Inr (vprint (''Selected prior '' @ str_shape (shape p)
                        @ '' and gold standard '' @ str_shape (shape g))
                (self\<lparr>priors_data := Some p, gold_standard := Some g\<rparr>)))))))"

text \<open>Lines 168-176: the priors and the gold standard are read, and split when the flags
  ask for it.\<close>

definition read_gold_standard_and_priors ::
  "'v collaborators \<Rightarrow> 'v workflow \<Rightarrow> error + 'v workflow" where
  "read_gold_standard_and_priors env self =
     bind (input_dataframe env (priors_file self)) (\<lambda>p.
     (let self = self\<lparr>priors_data := Some p\<rparr>
      in bind (if split_priors_for_gold_standard self
               then split_priors_into_gold_standard env self
               else bind (input_dataframe env (gold_standard_file self)) (\<lambda>g.
                      Inr (self\<lparr>gold_standard := Some g\<rparr>))) (\<lambda>self.
         if split_gold_standard_for_crossvalidation self
         then cross_validate_gold_standard env self
         else Inr self)))"

text \<open>One \<^verbatim>\<open>try: check.index_values_unique(...) except ValueError as v_err:\<close> block
  (lines 178-182 and 184-188): a \<^verbatim>\<open>ValueError\<close> is printed and swallowed, any other
  exception propagates.\<close>

definition warn_if_duplicates ::
  "'v collaborators \<Rightarrow> string list \<Rightarrow> string \<Rightarrow> 'v workflow \<Rightarrow> error + 'v workflow" where
  "warn_if_duplicates env labels msg self =
     (case index_values_unique env labels of
        Inr _ \<Rightarrow> Inr self
      | Inl (ValueError v_err) \<Rightarrow> Inr (vprint v_err (vprint msg self))
      | Inl e \<Rightarrow> Inl e)"

text \<open>\<^verbatim>\<open>WorkflowBase.set_gold_standard_and_priors\<close> (inferelator/workflow.py, lines
  164-188).\<close>

definition set_gold_standard_and_priors ::
  "'v collaborators \<Rightarrow> 'v workflow \<Rightarrow> error + 'v workflow" where
  "set_gold_standard_and_priors env self =
     bind (read_gold_standard_and_priors env self) (\<lambda>self.
     bind (the_frame (priors_data self)) (\<lambda>p.
     bind (warn_if_duplicates env (df_index p) ''Duplicate gene(s) in prior index'' self) (\<lambda>self.
     bind (the_frame (priors_data self)) (\<lambda>p.
     warn_if_duplicates env (df_columns p) ''Duplicate tf(s) in prior index'' self))))"

section \<open>One bootstrap of the single-cell BBSR workflow\<close>

text \<open>
  Modelled from the spec: the key-value store behind \<^verbatim>\<open>self.kvs\<close> is not among the source
  files. Section 4.4 gives its contract: \<^verbatim>\<open>put\<close> publishes a value under a key, \<^verbatim>\<open>view\<close>
  is a blocking read that leaves the value in place, \<^verbatim>\<open>get\<close> is a blocking read that
  removes it. A read of a key with no value does not return: \<open>None\<close>.
\<close>

type_synonym 'c kvs = "string \<Rightarrow> 'c list"

definition kvs_put :: "'c kvs \<Rightarrow> string \<Rightarrow> 'c \<Rightarrow> 'c kvs" where
  "kvs_put s k v = s(k := s k @ [v])"

definition kvs_view :: "'c kvs \<Rightarrow> string \<Rightarrow> 'c option" where
  "kvs_view s k = (case s k of [] \<Rightarrow> None | v # _ \<Rightarrow> Some v)"

definition kvs_get :: "'c kvs \<Rightarrow> string \<Rightarrow> ('c \<times> 'c kvs) option" where
  "kvs_get s k = (case s k of [] \<Rightarrow> None | v # vs \<Rightarrow> Some (v, s(k := vs)))"

text \<open>\<^verbatim>\<open>WorkflowBase.is_master\<close> (inferelator_ng/workflow.py, lines 233-238).\<close>

definition is_master :: "nat \<Rightarrow> bool" where
  "is_master rank = (if rank = 0 then True else False)"

text \<open>The key \<^verbatim>\<open>'mi %d' % idx\<close>.\<close>

definition mi_key :: "nat \<Rightarrow> string" where
  "mi_key idx = ''mi '' @ str_nat idx"

text \<open>The collaborators of one bootstrap, taken as parameters: the numeric functions
  of inferelator_ng/single_cell.py, whose values play no part in the protocol (pseudobulk
  reclustering with library-size normalisation, the lookup
  \<^verbatim>\<open>self.cluster_index[bootstrap]\<close> included, and the per-cell normalisation), and the
  MI/CLR kernel, \<^verbatim>\<open>utils.ownCheck\<close> and the BBSR solver, which are not among the source
  files. The store is a shared object: the solver is handed the store itself, the rank
  and the \<^verbatim>\<open>ownCheck\<close> generator built over the store, so it may read and write any key;
  it returns the coefficients together with the store as it leaves it. Building the
  generator runs none of its body.\<close>

record ('d, 'c, 'b, 'p, 'o) kernels =
  reclustering :: "'d \<Rightarrow> nat list \<Rightarrow> 'd"
  mi_driver_run :: "'d \<Rightarrow> 'd \<Rightarrow> 'c"
  own_check :: "'c kvs \<Rightarrow> nat \<Rightarrow> nat \<Rightarrow> 'o"
  ss_df_norm :: "'d \<Rightarrow> 'd"
  bbsr_run :: "'d \<Rightarrow> 'd \<Rightarrow> 'c \<Rightarrow> 'p \<Rightarrow> 'c kvs \<Rightarrow> nat \<Rightarrow> 'o \<Rightarrow> 'b \<times> 'c kvs"

text \<open>A call either returns the coefficients, leaving the store in the state given, or
  stays in a blocking read of the store, which is then in the state given.\<close>

datatype ('c, 'b) outcome =
    Blocked "'c kvs"
  | Returned "'c kvs" 'b

text \<open>\<^verbatim>\<open>Single_Cell_BBSR_TFA_Workflow.run_bootstrap\<close>
  (inferelator_ng/single_cell_bbsr_tfa_workflow.py, lines 27-63); \<open>priors\<close> is
  \<^verbatim>\<open>self.priors_data\<close>.\<close>

definition run_bootstrap ::
  "('d, 'c, 'b, 'p, 'o) kernels \<Rightarrow> nat \<Rightarrow> 'p \<Rightarrow> 'c kvs \<Rightarrow> 'd \<Rightarrow> 'd \<Rightarrow> nat \<Rightarrow> nat list \<Rightarrow>
     ('c, 'b) outcome" where
  "run_bootstrap k rank priors kvs x y idx bootstrap =
     (let x_bulk = reclustering k x bootstrap;
          y_bulk = reclustering k y bootstrap
      in case (if is_master rank
               then (let clr_mat = mi_driver_run k x_bulk y_bulk
                     in Inr (clr_mat, kvs_put kvs (mi_key idx) clr_mat))
               else (case kvs_view kvs (mi_key idx) of
                       None \<Rightarrow> Inl kvs
                     | Some clr_mat \<Rightarrow> Inr (clr_mat, kvs)))
         of Inl kvs \<Rightarrow> Blocked kvs
          | Inr (clr_mat, kvs) \<Rightarrow>
              (let ownCheck = own_check k kvs rank 25
               in case bbsr_run k (ss_df_norm k x) (ss_df_norm k y) clr_mat priors kvs rank
                         ownCheck
                  of (betas, kvs) \<Rightarrow>
                    if is_master rank
                    then (case kvs_get kvs (mi_key idx) of
                            None \<Rightarrow> Blocked kvs
                          | Some (_, kvs) \<Rightarrow> Returned kvs betas)
                    else Returned kvs betas))"
section \<open>Example inputs\<close>

definition ex_obs :: frame where
  "ex_obs = \<lparr>index = [''s1'', ''s2''], columns = []\<rparr>"

definition ex_var :: frame where
  "ex_var = \<lparr>index = [''g1'', ''g2'', ''g3''], columns = []\<rparr>"

definition ex_dense :: "int anndata" where
  "ex_dense = \<lparr>X = Dense [[1, 2, 3], [4, 2, 6]], X_dtype = Int32, obs = ex_obs, var = ex_var,
                uns_trim_gene_list = None\<rparr>"

definition ex_self :: inferelator_data where
  "ex_self = \<lparr>adata = 0, is_integer = True\<rparr>"

definition ex_obs_batch :: frame where
  "ex_obs_batch = \<lparr>index = [''s1'', ''s2''], columns = [(''batch'', [Some ''a'', Some ''b''])]\<rparr>"

definition ex_with_meta :: "int anndata" where
  "ex_with_meta = ex_dense\<lparr>obs := ex_obs_batch\<rparr>"

definition ex_new_meta :: frame where
  "ex_new_meta = \<lparr>index = [''s2'', ''s1''], columns = [(''cond'', [Some ''x'', Some ''y''])]\<rparr>"

definition ex_var_len :: frame where
  "ex_var_len =
     \<lparr>index = [''g1'', ''g2'', ''g3''], columns = [(''len'', [Some ''10'', Some ''20'', Some ''30''])]\<rparr>"

definition ex_with_gene_data :: "int anndata" where
  "ex_with_gene_data = ex_dense\<lparr>var := ex_var_len\<rparr>"

definition ex_new_gene_data :: frame where
  "ex_new_gene_data =
     \<lparr>index = [''g1'', ''g2'', ''g3''], columns = [(''len'', [Some ''11'', Some ''21'', Some ''31''])]\<rparr>"

definition ex_float_self :: inferelator_data where
  "ex_float_self = \<lparr>adata = 0, is_integer = False\<rparr>"

definition ex_eps :: "dtype \<Rightarrow> rat" where
  "ex_eps d = (if d = Float32 then 1 / 2 ^ 23 else 1 / 2 ^ 52)"

definition ex_sparse_float :: "rat anndata" where
  "ex_sparse_float =
     \<lparr>X = Sparse CSC [1, 1 + 1 / 2 ^ 52] [0, 1] [0, 2], X_dtype = Float64, obs = ex_obs,
      var = \<lparr>index = [''g1''], columns = []\<rparr>, uns_trim_gene_list = None\<rparr>"

definition ex_csr :: "rat anndata" where
  "ex_csr = \<lparr>X = Sparse CSR [2, 4, 6] [0, 2, 1] [0, 2, 3], X_dtype = Float64, obs = ex_obs,
             var = ex_var, uns_trim_gene_list = None\<rparr>"

definition ex_csr_int16 :: "rat anndata" where
  "ex_csr_int16 = ex_csr\<lparr>X_dtype := Int16\<rparr>"

definition ex_double :: "rat ufunc" where
  "ex_double = \<lparr>call = (\<lambda>x. x * 2), result_dtype = (\<lambda>d. d)\<rparr>"

definition ex_dense_float :: "rat anndata" where
  "ex_dense_float =
     \<lparr>X = Dense [[1], [2], [3], [4], [0]], X_dtype = Float64,
      obs = \<lparr>index = [''s1'', ''s2'', ''s3'', ''s4'', ''s5''], columns = []\<rparr>,
      var = \<lparr>index = [''g1''], columns = []\<rparr>, uns_trim_gene_list = None\<rparr>"

definition ex_seeding :: "nat \<Rightarrow> error + nat" where
  "ex_seeding s = Inr s"

definition ex_randint :: "nat \<Rightarrow> nat \<Rightarrow> nat \<times> nat" where
  "ex_randint g m = (if g < m then g else 0, Suc g)"

definition ex_frame5 :: "int dataframe" where
  "ex_frame5 = \<lparr>df_index = [''g1''], df_columns = [''s1'', ''s2'', ''s3'', ''s4'', ''s5''],
                df_values = [[1, 2, 3, 4, 5]]\<rparr>"

definition ex_workflow :: "int workflow" where
  "ex_workflow = \<lparr>random_seed = 0, num_bootstraps = 2, response = ex_frame5,
                  priors_file = ''priors.tsv'', gold_standard_file = ''gold_standard.tsv'',
                  priors_data = None, gold_standard = None,
                  split_priors_for_gold_standard = False,
                  split_gold_standard_for_crossvalidation = False, printed = []\<rparr>"

definition ex_priors :: "int dataframe" where
  "ex_priors = \<lparr>df_index = [''g1'', ''g1'', ''g2''], df_columns = [''tf1'', ''tf2''],
                df_values = [[1, 0], [0, 1], [1, 1]]\<rparr>"

definition ex_gold :: "int dataframe" where
  "ex_gold = \<lparr>df_index = [''g1'', ''g2''], df_columns = [''tf1''], df_values = [[1], [0]]\<rparr>"

definition ex_collaborators :: "int collaborators" where
  "ex_collaborators =
     \<lparr>input_dataframe = (\<lambda>f. if f = ''priors.tsv'' then Inr ex_priors
                              else if f = ''gold_standard.tsv'' then Inr ex_gold
                              else Inl IOError),
      split_for_cv = (\<lambda>d s. Inr (d, d)),
      remove_prior_circularity = (\<lambda>p g. Inr (p, g)),
      index_values_unique = (\<lambda>l. if distinct l then Inr True
                                   else Inl (ValueError ''Index values are not unique''))\<rparr>"

definition ex_typeerror_check :: "int collaborators" where
  "ex_typeerror_check =
     ex_collaborators\<lparr>index_values_unique :=
       (\<lambda>l. if distinct l then Inr True else Inl TypeError)\<rparr>"

definition ex_typeerror_on_tfs :: "int collaborators" where
  "ex_typeerror_on_tfs =
     ex_collaborators\<lparr>index_values_unique :=
       (\<lambda>l. if l = [''tf1'', ''tf2''] then Inl TypeError
            else if distinct l then Inr True
            else Inl (ValueError ''Index values are not unique''))\<rparr>"

definition ex_kernels :: "(nat, nat, nat, nat, nat) kernels" where
  "ex_kernels =
     \<lparr>reclustering = (\<lambda>d b. d + length b), mi_driver_run = (\<lambda>x y. x + y),
      own_check = (\<lambda>s r c. r + c), ss_df_norm = (\<lambda>d. d),
      bbsr_run = (\<lambda>x y c p s r oc. (x + y + c + p + r, s(''seen'' := s ''mi 3'' @ [oc])))\<rparr>"


definition ex_dense_eps :: "rat anndata" where
  "ex_dense_eps =
     \<lparr>X = Dense [[1], [1 + 1 / 2 ^ 52]], X_dtype = Float64, obs = ex_obs,
      var = \<lparr>index = [''g1''], columns = []\<rparr>, uns_trim_gene_list = None\<rparr>"
section \<open>Properties\<close>

subsection \<open>Metadata assignment\<close>

lemma reindex_index: "reindex f labels = Inr f' \<Longrightarrow> index f' = labels"
  by (auto simp: reindex_def split: if_splits)

lemma meta_data_setter_rejects_existing_columns:
  assumes "get_adata h self = Inr a" and "columns (obs a) \<noteq> []" and "0 < n_obs a"
  shows "\<exists>e. meta_data_setter h self new_meta_data = Inl e"
proof (cases "reindex new_meta_data (obs_names a)")
  case (Inl e)
  then show ?thesis using assms(1) by (simp add: meta_data_setter_def bind_def)
next
  case (Inr f)
  then have "index f = obs_names a" by (rule reindex_index)
  then show ?thesis using assms Inr
    by (simp add: meta_data_setter_def bind_def set_obs_def Let_def loc_columns_def concat_axis0_def
        n_obs_def obs_names_def)
qed

lemma gene_data_setter_rejects_existing_columns:
  assumes "get_adata h self = Inr a" and "columns (var a) \<noteq> []" and "0 < n_vars a"
  shows "\<exists>e. gene_data_setter h self new_gene_data = Inl e"
proof (cases "reindex new_gene_data (var_names a)")
  case (Inl e)
  then show ?thesis using assms(1) by (simp add: gene_data_setter_def bind_def var_names_def)
next
  case (Inr f)
  then have "index f = var_names a" by (rule reindex_index)
  then show ?thesis using assms Inr
    by (simp add: gene_data_setter_def bind_def set_var_def Let_def loc_columns_def concat_axis0_def
        n_vars_def var_names_def)
qed

text \<open>
  C1. A second assignment of sample metadata, to a store of two samples that holds the
  column \<open>batch\<close>, of a table with the column \<open>cond\<close>: \<^verbatim>\<open>pd.concat\<close> is called without
  \<^verbatim>\<open>axis=1\<close>, so it stacks the two tables into one of four rows (second conjunct), which
  AnnData refuses; the setter raises instead of merging the columns. The gene metadata
  setter fails in the same way when the column \<open>len\<close> is assigned a second time.
\<close>

theorem meta_data_second_assignment:
  "meta_data_setter [ex_with_meta] ex_self ex_new_meta
     = Inl (ValueError ''Length of passed value for obs_names does not match the shape'')
   \<and> concat_axis0 \<lparr>index = [''s1'', ''s2''], columns = [(''cond'', [Some ''y'', Some ''x''])]\<rparr>
        (loc_columns ex_obs_batch (difference (column_names ex_obs_batch) [''cond'']))
     = \<lparr>index = [''s1'', ''s2'', ''s1'', ''s2''],
        columns = [(''cond'', [Some ''y'', Some ''x'', None, None]),
                   (''batch'', [None, None, Some ''a'', Some ''b''])]\<rparr>
   \<and> gene_data_setter [ex_with_gene_data] ex_self ex_new_gene_data
     = Inl (ValueError ''Length of passed value for var_names does not match the shape'')"
  by (simp add: meta_data_setter_def gene_data_setter_def bind_def get_adata_def ex_self_def
      ex_with_meta_def ex_dense_def ex_obs_batch_def ex_obs_def ex_var_def obs_names_def
      var_names_def reindex_def ex_new_meta_def reindex_column_def difference_def
      column_names_def loc_columns_def concat_axis0_def column_or_nan_def set_obs_def n_obs_def
      ex_with_gene_data_def ex_var_len_def ex_new_gene_data_def set_var_def n_vars_def
      intersection_def Let_def)

subsection \<open>Masks and selections\<close>






subsection \<open>trim_genes: what is kept, and what happens to the store\<close>

lemma length_isin [simp]: "length (isin xs l) = length xs"
  by (simp add: isin_def)

lemma length_mask_and [simp]: "length (mask_and a b) = min (length a) (length b)"
  by (simp add: mask_and_def)

lemma nonconstant_mask_length:
  "nonconstant_mask c a = Inr m \<Longrightarrow> length m = n_vars a"
  by (auto simp: nonconstant_mask_def Let_def split: matrix.splits if_splits)

lemma keep_mask_length:
  assumes "keep_mask eps rc tgl self a = Inr (keep, lt, vz)"
  shows "length keep = n_vars a"
proof -
  let ?k0 = "(case tgl of Some l \<Rightarrow> isin (var_names a) l
             | None \<Rightarrow> (case uns_trim_gene_list a of Some l \<Rightarrow> isin (var_names a) l
                  | None \<Rightarrow> replicate (n_vars a) True))"
  have k0: "length ?k0 = n_vars a"
    by (simp add: n_vars_def split: option.splits)
  show ?thesis
    using assms k0 unfolding keep_mask_def Let_def bind_def
    by (auto split: sum.splits if_splits dest!: nonconstant_mask_length)
qed

lemma get_adata_Inr: "get_adata h self = Inr a \<Longrightarrow> adata self < length h \<and> h ! adata self = a"
  by (auto simp: get_adata_def split: if_splits)

lemma trim_genes_result:
  assumes "get_adata h self = Inr a"
      and "keep_mask eps rc tgl self a = Inr (keep, lt, vz)"
      and "count_true keep \<noteq> 0"
  shows "(count_true keep = n_vars a \<longrightarrow> trim_genes eps rc tgl h self = Inr (h, self))
       \<and> (count_true keep \<noteq> n_vars a \<longrightarrow>
            (\<exists>h' self'. trim_genes eps rc tgl h self = Inr (h', self')
               \<and> adata self' = length h \<and> adata self' \<noteq> adata self
               \<and> is_integer self' = is_integer self
               \<and> h' = h @ [subset_vars a keep]
               \<and> get_adata h' self' = Inr (subset_vars a keep)
               \<and> get_adata h' self = Inr a))
       \<and> X (subset_vars a keep) = subset_columns (X a) keep
       \<and> var_names (subset_vars a keep) = select keep (var_names a)
       \<and> obs (subset_vars a keep) = obs a
       \<and> obs_names (subset_vars a keep) = obs_names a"
  using assms get_adata_Inr [OF assms(1)]
  by (auto simp: trim_genes_def bind_def alloc_def get_adata_def nth_append subset_vars_def
      var_names_def obs_names_def subset_frame_rows_def)

text \<open>
  C5. When \<^verbatim>\<open>trim_genes\<close> has computed a non-empty keep mask: if the mask keeps every
  gene, the heap and the store come back as they were (no object is allocated); otherwise
  \<^verbatim>\<open>_adata\<close> is bound to a newly allocated object, the column subset, while the old
  object stays in the heap unchanged and unreferenced by the store. The subset has the
  sample table and sample labels of the original.
\<close>

theorem trim_genes_frame:
  assumes "get_adata h self = Inr a"
      and "keep_mask eps rc tgl self a = Inr (keep, lt, vz)"
      and "count_true keep \<noteq> 0"
  shows "(count_true keep = n_vars a \<longrightarrow> trim_genes eps rc tgl h self = Inr (h, self))
       \<and> (count_true keep \<noteq> n_vars a \<longrightarrow>
            (\<exists>h' self'. trim_genes eps rc tgl h self = Inr (h', self')
               \<and> adata self' = length h \<and> adata self' \<noteq> adata self
               \<and> is_integer self' = is_integer self
               \<and> h' = h @ [subset_vars a keep]
               \<and> get_adata h' self' = Inr (subset_vars a keep)
               \<and> get_adata h' self = Inr a))
       \<and> X (subset_vars a keep) = subset_columns (X a) keep
       \<and> var_names (subset_vars a keep) = select keep (var_names a)
       \<and> obs (subset_vars a keep) = obs a
       \<and> obs_names (subset_vars a keep) = obs_names a"
  by (rule trim_genes_result [OF assms])

theorem trim_genes_frame_witness:
  "get_adata [ex_dense] ex_self = Inr ex_dense
   \<and> keep_mask (\<lambda>d. 0) False (Some [''g1'', ''g3'']) ex_self ex_dense = Inr ([True, False, True], 1, 0)
   \<and> count_true [True, False, True] \<noteq> 0
   \<and> count_true [True, False, True] \<noteq> n_vars ex_dense
   \<and> trim_genes (\<lambda>d. 0) False (Some [''g1'', ''g3'']) [ex_dense] ex_self
        = Inr ([ex_dense, subset_vars ex_dense [True, False, True]], \<lparr>adata = 1, is_integer = True\<rparr>)
   \<and> obs (subset_vars ex_dense [True, False, True]) = obs ex_dense
   \<and> keep_mask (\<lambda>d. 0) False None ex_self ex_dense = Inr ([True, True, True], 0, 0)
   \<and> count_true [True, True, True] = n_vars ex_dense
   \<and> trim_genes (\<lambda>d. 0) False None [ex_dense] ex_self = Inr ([ex_dense], ex_self)"
proof -
  have g: "get_adata [ex_dense] ex_self = Inr ex_dense" by code_simp
  have k1: "keep_mask (\<lambda>d. 0) False (Some [''g1'', ''g3'']) ex_self ex_dense
              = Inr ([True, False, True], 1, 0)" by code_simp
  have k2: "keep_mask (\<lambda>d. 0) False None ex_self ex_dense = Inr ([True, True, True], 0, 0)"
    by code_simp
  have c1: "count_true [True, False, True] \<noteq> 0" by code_simp
  have c2: "count_true [True, True, True] \<noteq> 0" by code_simp
  have n1: "count_true [True, False, True] \<noteq> n_vars ex_dense" by code_simp
  have n2: "count_true [True, True, True] = n_vars ex_dense" by code_simp
  have t: "trim_genes (\<lambda>d. 0) False (Some [''g1'', ''g3'']) [ex_dense] ex_self
        = Inr ([ex_dense, subset_vars ex_dense [True, False, True]], \<lparr>adata = 1, is_integer = True\<rparr>)"
    by code_simp
  show ?thesis
    using trim_genes_frame [OF g k1 c1] trim_genes_frame [OF g k2 c2] g k1 k2 c1 n1 n2 t
    by simp
qed

lemma np_min_Min: "xs \<noteq> [] \<Longrightarrow> np_min xs = Min (set xs)"
  by (cases xs) (simp_all add: Min.set_eq_fold [symmetric])

lemma np_max_Max: "xs \<noteq> [] \<Longrightarrow> np_max xs = Max (set xs)"
  by (cases xs) (simp_all add: Max.set_eq_fold [symmetric])

lemma min_ne_max_iff:
  assumes "xs \<noteq> []"
  shows "(np_min xs \<noteq> np_max xs) = (\<exists>x \<in> set xs. \<exists>y \<in> set xs. x \<noteq> y)"
proof
  assume "np_min xs \<noteq> np_max xs"
  moreover have "np_min xs \<in> set xs" "np_max xs \<in> set xs"
    using assms by (simp_all add: np_min_Min np_max_Max)
  ultimately show "\<exists>x \<in> set xs. \<exists>y \<in> set xs. x \<noteq> y" by blast
next
  assume "\<exists>x \<in> set xs. \<exists>y \<in> set xs. x \<noteq> y"
  then obtain x y where xy: "x \<in> set xs" "y \<in> set xs" "x \<noteq> y" by blast
  have "Min (set xs) \<le> x" "Min (set xs) \<le> y" "x \<le> Max (set xs)" "y \<le> Max (set xs)"
    using xy by simp_all
  then have "Min (set xs) \<noteq> Max (set xs)" using xy(3) by auto
  then show "np_min xs \<noteq> np_max xs" using assms by (simp add: np_min_Min np_max_Max)
qed

lemma select_nth:
  assumes "length keep = length xs"
  shows "select keep xs = map (\<lambda>j. xs ! j) (filter (\<lambda>j. keep ! j) [0..<length xs])"
proof -
  have "zip xs keep = map (\<lambda>i. (xs ! i, keep ! i)) [0..<length xs]"
    using assms by (intro nth_equalityI) simp_all
  then show ?thesis
    by (simp add: select_def filter_map comp_def)
qed

lemma mask_and_nth:
  "j < length a \<Longrightarrow> j < length b \<Longrightarrow> mask_and a b ! j = (a ! j \<and> b ! j)"
  by (simp add: mask_and_def)

lemma isin_nth: "j < length xs \<Longrightarrow> isin xs l ! j = (xs ! j \<in> set l)"
  by (simp add: isin_def)

lemma with_implicit_zero_ne: "0 < n \<Longrightarrow> with_implicit_zero n vals \<noteq> []"
  by (auto simp: with_implicit_zero_def)

lemma sparse_varies_iff:
  assumes "0 < n"
  shows "(0 < length vals \<and> sparse_col_min n vals \<noteq> sparse_col_max n vals)
       = (\<exists>x \<in> set (with_implicit_zero n vals). \<exists>y \<in> set (with_implicit_zero n vals). x \<noteq> y)"
proof -
  have iff: "(sparse_col_min n vals \<noteq> sparse_col_max n vals)
       = (\<exists>x \<in> set (with_implicit_zero n vals). \<exists>y \<in> set (with_implicit_zero n vals). x \<noteq> y)"
    unfolding sparse_col_min_def sparse_col_max_def
    by (rule min_ne_max_iff) (rule with_implicit_zero_ne [OF assms])
  have "vals = [] \<Longrightarrow> with_implicit_zero n vals = [0]"
    using assms by (simp add: with_implicit_zero_def)
  then show ?thesis using iff by (cases vals) auto
qed

lemma nonconstant_mask_nth:
  assumes "nonconstant_mask c a = Inr m" and "j < n_vars a"
  shows "m ! j =
     (case X a of
        Dense rows \<Rightarrow> c < np_max (dense_column rows j) - np_min (dense_column rows j)
      | Sparse f data indices indptr \<Rightarrow>
          (\<exists>x \<in> set (with_implicit_zero (n_obs a) (sparse_column f data indices indptr j)).
           \<exists>y \<in> set (with_implicit_zero (n_obs a) (sparse_column f data indices indptr j)). x \<noteq> y))"
proof (cases "X a")
  case (Dense rows)
  then show ?thesis using assms
    by (auto simp: nonconstant_mask_def split: if_splits)
next
  case (Sparse f data indices indptr)
  then have n: "0 < n_obs a" and
    m: "m = mask_and (map (\<lambda>j. 0 < length (sparse_column f data indices indptr j)) [0..<n_vars a])
             (map (\<lambda>j. sparse_col_min (n_obs a) (sparse_column f data indices indptr j)
                       \<noteq> sparse_col_max (n_obs a) (sparse_column f data indices indptr j))
                [0..<n_vars a])"
    using assms(1) by (auto simp: nonconstant_mask_def Let_def split: if_splits)
  show ?thesis
    using assms(2) sparse_varies_iff [OF n, of "sparse_column f data indices indptr j"]
    by (simp add: m Sparse mask_and_nth)
qed

lemma keep_mask_nth:
  assumes "keep_mask eps True tgl self a = Inr (keep, lt, vz)" and "j < n_vars a"
  shows "keep ! j =
     ((case tgl of Some l \<Rightarrow> var_names a ! j \<in> set l
       | None \<Rightarrow> (case uns_trim_gene_list a of Some l \<Rightarrow> var_names a ! j \<in> set l | None \<Rightarrow> True))
      \<and> (case X a of
            Dense rows \<Rightarrow> (if is_integer self then 0 else eps (X_dtype a) * 10)
                             < np_max (dense_column rows j) - np_min (dense_column rows j)
          | Sparse f data indices indptr \<Rightarrow>
              (\<exists>x \<in> set (with_implicit_zero (n_obs a) (sparse_column f data indices indptr j)).
               \<exists>y \<in> set (with_implicit_zero (n_obs a) (sparse_column f data indices indptr j)). x \<noteq> y)))"
proof -
  let ?k0 = "(case tgl of Some l \<Rightarrow> isin (var_names a) l
             | None \<Rightarrow> (case uns_trim_gene_list a of Some l \<Rightarrow> isin (var_names a) l
                  | None \<Rightarrow> replicate (n_vars a) True))"
  let ?c = "(if is_integer self then 0 else eps (X_dtype a) * 10)"
  have k0len: "length ?k0 = n_vars a"
    by (simp add: n_vars_def split: option.splits)
  have k0: "?k0 ! j = (case tgl of Some l \<Rightarrow> var_names a ! j \<in> set l
       | None \<Rightarrow> (case uns_trim_gene_list a of Some l \<Rightarrow> var_names a ! j \<in> set l | None \<Rightarrow> True))"
    using assms(2) by (simp add: n_vars_def isin_nth split: option.splits)
  obtain m where m: "nonconstant_mask ?c a = Inr m" and keep: "keep = mask_and ?k0 m"
    using assms(1) unfolding keep_mask_def Let_def bind_def np_finfo_eps_def
    by (auto split: sum.splits if_splits)
  have mlen: "length m = n_vars a" using m by (rule nonconstant_mask_length)
  show ?thesis
    unfolding keep using assms(2) k0len mlen
    by (simp only: mask_and_nth k0 nonconstant_mask_nth [OF m assms(2)])
qed

lemma trim_genes_var_names:
  assumes "get_adata h self = Inr a"
      and "trim_genes eps rc tgl h self = Inr (h', self')"
      and "get_adata h' self' = Inr a'"
  shows "\<exists>keep lt vz. keep_mask eps rc tgl self a = Inr (keep, lt, vz)
           \<and> var_names a' = select keep (var_names a)"
proof -
  obtain keep lt vz where km: "keep_mask eps rc tgl self a = Inr (keep, lt, vz)"
    using assms(1,2) by (auto simp: trim_genes_def bind_def split: sum.splits)
  have len: "length keep = length (var_names a)"
    using keep_mask_length [OF km] by (simp add: n_vars_def)
  have nz: "count_true keep \<noteq> 0"
    using assms(1,2) km by (auto simp: trim_genes_def bind_def split: if_splits)
  show ?thesis
  proof (cases "count_true keep = n_vars a")
    case True
    then have "filter (\<lambda>b. b) keep = keep"
      using len unfolding count_true_def n_vars_def
      by (metis filter_True length_filter_less nat_neq_iff)
    then have "\<forall>b \<in> set keep. b" by (metis filter_id_conv)
    then have "select keep (var_names a) = var_names a"
      using len unfolding select_def
      by (metis (mono_tags, lifting) filter_True map_fst_zip set_zip_rightD split_pairs)
    moreover have "a' = a"
      using trim_genes_result [OF assms(1) km nz] True assms by simp
    ultimately show ?thesis using km by simp
  next
    case False
    then have "a' = subset_vars a keep"
      using trim_genes_result [OF assms(1) km nz] assms by auto
    then show ?thesis using km by (simp add: subset_vars_def var_names_def subset_frame_rows_def)
  qed
qed

subsection \<open>Column selection\<close>



















subsection \<open>trim_genes with a gene list\<close>







subsection \<open>trim_genes: constant genes\<close>

text \<open>
  The genes that \<^verbatim>\<open>trim_genes(remove_constant_genes=True)\<close> keeps when it returns: those
  that pass the list criterion and, on a dense backing, whose \<^verbatim>\<open>max - min\<close> exceeds the
  tolerance; on a sparse backing, those whose column, implicit zeros included, holds
  two different values, whatever the tolerance.
\<close>

lemma trim_genes_kept_genes:
  assumes "get_adata h self = Inr a"
      and "trim_genes eps True tgl h self = Inr (h', self')"
      and "get_adata h' self' = Inr a'"
  shows "var_names a' = map (\<lambda>j. var_names a ! j) (filter (\<lambda>j.
     (case tgl of Some l \<Rightarrow> var_names a ! j \<in> set l
       | None \<Rightarrow> (case uns_trim_gene_list a of Some l \<Rightarrow> var_names a ! j \<in> set l | None \<Rightarrow> True))
      \<and> (case X a of
            Dense rows \<Rightarrow> (if is_integer self then 0 else eps (X_dtype a) * 10)
                             < np_max (dense_column rows j) - np_min (dense_column rows j)
          | Sparse f data indices indptr \<Rightarrow>
              (\<exists>x \<in> set (with_implicit_zero (n_obs a) (sparse_column f data indices indptr j)).
               \<exists>y \<in> set (with_implicit_zero (n_obs a) (sparse_column f data indices indptr j)). x \<noteq> y)))
     [0..<n_vars a])"
proof -
  obtain keep lt vz where km: "keep_mask eps True tgl self a = Inr (keep, lt, vz)"
    and vn: "var_names a' = select keep (var_names a)"
    using trim_genes_var_names [OF assms] by blast
  have len: "length keep = length (var_names a)"
    using keep_mask_length [OF km] by (simp add: n_vars_def)
  show ?thesis
    unfolding vn select_nth [OF len] n_vars_def [symmetric]
    by (intro arg_cong [where f = "map (\<lambda>j. var_names a ! j)"] filter_cong refl)
       (simp add: keep_mask_nth [OF km])
qed

text \<open>
  C4. The tolerance of line 309 is computed for every store, and the sparse branch
  (lines 313-315) does not use it. A floating-point column whose two values differ by
  one machine epsilon has a range below the tolerance of ten epsilon: on a sparse
  backing \<^verbatim>\<open>trim_genes(remove_constant_genes=True)\<close> keeps the gene, and on a dense backing
  with the same two values it removes it, which leaves no gene.
\<close>

theorem sparse_tolerance_ignored:
  "sparse_column CSC [1, 1 + 1 / 2 ^ 52] [0, 1] [0, 2] 0 = [1, 1 + 1 / 2 ^ 52 :: rat]
   \<and> \<not> (ex_eps Float64 * 10
          < sparse_col_max 2 [1, 1 + 1 / 2 ^ 52] - sparse_col_min 2 [1, 1 + 1 / 2 ^ 52])
   \<and> trim_genes ex_eps True None [ex_sparse_float] ex_float_self
        = Inr ([ex_sparse_float], ex_float_self)
   \<and> dense_column [[1], [1 + 1 / 2 ^ 52 :: rat]] 0 = [1, 1 + 1 / 2 ^ 52]
   \<and> trim_genes ex_eps True None [ex_dense_eps] ex_float_self
        = Inl (ValueError ''No genes remain after trimming. (0 removed to match list, 1 removed for var=0)'')"
  by code_simp


subsection \<open>Scaling a sparse store along an axis\<close>

lemma concat_replicate_nth:
  "length cs = length vs \<Longrightarrow> i < length cs \<Longrightarrow> sum_list (take i cs) \<le> k \<Longrightarrow>
   k < sum_list (take (Suc i) cs) \<Longrightarrow>
   concat (map (\<lambda>(c, x). replicate c x) (zip cs vs)) ! k = vs ! i"
proof (induction cs arbitrary: vs i k)
  case Nil
  then show ?case by simp
next
  case (Cons c cs)
  then obtain x vs' where vs: "vs = x # vs'" by (cases vs) auto
  show ?case
  proof (cases i)
    case 0
    then show ?thesis using Cons.prems vs by (simp add: nth_append)
  next
    case (Suc i')
    have "concat (map (\<lambda>(c, x). replicate c x) (zip cs vs')) ! (k - c) = vs' ! i'"
      using Cons.prems vs Suc by (intro Cons.IH) auto
    then show ?thesis using Cons.prems vs Suc by (simp add: nth_append)
  qed
qed

lemma length_concat_replicate:
  "length cs = length vs \<Longrightarrow>
   length (concat (map (\<lambda>(c, x). replicate c x) (zip cs vs))) = sum_list cs"
  by (induction cs vs rule: list_induct2) auto

lemma sum_take_getnnz:
  assumes "sorted indptr" and "i < length indptr"
  shows "sum_list (take i (getnnz_major indptr)) = indptr ! i - indptr ! 0"
  using assms(2)
proof (induction i)
  case 0
  then show ?case by simp
next
  case (Suc i)
  have mono: "indptr ! 0 \<le> indptr ! i" "indptr ! i \<le> indptr ! Suc i"
    using assms(1) Suc.prems by (simp_all add: sorted_iff_nth_mono)
  have "i < length indptr - 1" using Suc.prems by simp
  then have "take (Suc i) (getnnz_major indptr) = take i (getnnz_major indptr) @ [indptr ! Suc i - indptr ! i]"
    by (simp add: getnnz_major_def take_Suc_conv_app_nth)
  then show ?case using Suc mono by simp
qed

lemma length_getnnz_major [simp]: "length (getnnz_major indptr) = length indptr - 1"
  by (simp add: getnnz_major_def)

lemma repeat_segments:
  assumes wf: "csx_wf n data indices indptr" and len: "length v = n"
  shows "\<exists>rep. np_repeat v (getnnz_major indptr) = Inr rep \<and> length rep = length data
           \<and> (\<forall>i k. i < n \<and> indptr ! i \<le> k \<and> k < indptr ! (i + 1) \<longrightarrow> rep ! k = v ! i)"
proof -
  let ?cs = "getnnz_major indptr"
  let ?rep = "concat (map (\<lambda>(c, x). replicate c x) (zip ?cs v))"
  have l: "length ?cs = length v" using wf len by (simp add: csx_wf_def)
  have s: "sorted indptr" and z: "indptr ! 0 = 0" and li: "length indptr = n + 1"
    and last: "indptr ! n = length data"
    using wf by (simp_all add: csx_wf_def)
  have r: "np_repeat v ?cs = Inr ?rep" using l by (simp add: np_repeat_def)
  have "sum_list ?cs = sum_list (take n ?cs)" using li by simp
  also have "\<dots> = indptr ! n - indptr ! 0" using li by (intro sum_take_getnnz [OF s]) simp
  finally have lr: "length ?rep = length data"
    using l z last by (simp add: length_concat_replicate)
  have "?rep ! k = v ! i" if "i < n" "indptr ! i \<le> k" "k < indptr ! (i + 1)" for i k
  proof -
    have a: "sum_list (take i ?cs) = indptr ! i"
      using sum_take_getnnz [OF s, of i] that(1) li z by simp
    have b: "sum_list (take (Suc i) ?cs) = indptr ! (i + 1)"
      using sum_take_getnnz [OF s, of "Suc i"] that(1) li z by simp
    show ?thesis
      using l that len a b by (intro concat_replicate_nth) simp_all
  qed
  then show ?thesis using r lr by blast
qed

lemma scale_sparse_bad_axis:
  assumes get: "get_adata h self = Inr a"
      and X: "X a = Sparse fm data indices indptr"
      and dt: "is_integer self \<longrightarrow> X_dtype a \<noteq> Int16"
  shows "scale f cast h self val (Some (if fm = CSR then 0 else 1))
           = Inl (ValueError ''axis = 1 only works for CSC & axis = 0 only works for CSR'')"
proof -
  have i: "adata self < length h" "h ! adata self = a" using get_adata_Inr [OF get] by simp_all
  have d: "X_dtype a = Int16 \<or> X_dtype a = Int32 \<or> X_dtype a = Int64 \<or> is_float_dtype (X_dtype a)"
    by (cases "X_dtype a") (simp_all add: is_float_dtype_def)
  show ?thesis
    using i X dt d
    by (cases fm)
       (auto simp: scale_def convert_to_float_def bind_def get_adata_def put_adata_def
          map_matrix_def is_float_dtype_def)
qed

lemma convert_step:
  assumes get: "get_adata h self = Inr a"
      and X: "X a = Sparse fm data indices indptr"
      and dt: "is_integer self \<longrightarrow> X_dtype a \<noteq> Int16"
  shows "\<exists>h1 self1 a1.
           (if is_integer self then convert_to_float cast h self else Inr (h, self)) = Inr (h1, self1)
         \<and> get_adata h1 self1 = Inr a1
         \<and> X a1 = Sparse fm (map (\<lambda>x. if is_integer self \<and> \<not> is_float_dtype (X_dtype a)
                                       then cast x else x) data) indices indptr
         \<and> obs a1 = obs a \<and> var a1 = var a \<and> adata self1 = adata self \<and> length h1 = length h"
proof (cases "is_integer self")
  case False
  then show ?thesis using get X by simp
next
  case True
  have i: "adata self < length h" "h ! adata self = a" using get_adata_Inr [OF get] by simp_all
  show ?thesis
  proof (cases "is_float_dtype (X_dtype a)")
    case fl: True
    then show ?thesis using True get X by (simp add: convert_to_float_def bind_def)
  next
    case nf: False
    then have "X_dtype a = Int32 \<or> X_dtype a = Int64"
      using dt True by (cases "X_dtype a") (simp_all add: is_float_dtype_def)
    then show ?thesis
      using True get X nf i
      by (auto simp: convert_to_float_def bind_def get_adata_def put_adata_def map_matrix_def)
  qed
qed

lemma scale_after_convert:
  assumes conv: "(if is_integer self then convert_to_float cast h self else Inr (h, self)) = Inr (h1, self1)"
      and g1: "get_adata h1 self1 = Inr a1"
      and a1: "X a1 = Sparse fm data1 indices indptr"
      and ax: "(fm = CSR \<and> axis = Some 1) \<or> (fm = CSC \<and> axis = Some 0)"
      and len: "(if axis \<noteq> Some 0 then n_obs a1 else n_vars a1) = length v"
      and rep: "np_repeat v (getnnz_major indptr) = Inr rep"
      and ip: "inplace_vec f data1 rep = Inr d'"
  shows "scale f cast h self (Array1 v) axis
           = Inr (put_adata h1 self1 (a1\<lparr>X := Sparse fm d' indices indptr\<rparr>), self1)"
proof -
  have ne: "axis \<noteq> None" using ax by auto
  show ?thesis
    unfolding scale_def conv bind_def
    by (simp add: g1 a1 ne ax len rep ip)
qed

lemma scale_sparse_good_axis:
  assumes get: "get_adata h self = Inr a"
      and X: "X a = Sparse fm data indices indptr"
      and dt: "is_integer self \<longrightarrow> X_dtype a \<noteq> Int16"
      and wf: "csx_wf (if fm = CSR then n_obs a else n_vars a) data indices indptr"
      and len: "length v = (if fm = CSR then n_obs a else n_vars a)"
  shows "\<exists>h' self' a' data'.
           scale f cast h self (Array1 v) (Some (if fm = CSR then 1 else 0)) = Inr (h', self')
         \<and> get_adata h' self' = Inr a' \<and> X a' = Sparse fm data' indices indptr
         \<and> length data' = length data
         \<and> (\<forall>i k. i < length v \<and> indptr ! i \<le> k \<and> k < indptr ! (i + 1) \<longrightarrow>
               data' ! k = f (if is_integer self \<and> \<not> is_float_dtype (X_dtype a)
                              then cast (data ! k) else data ! k) (v ! i))"
proof -
  let ?n = "if fm = CSR then n_obs a else n_vars a"
  let ?c = "\<lambda>x. if is_integer self \<and> \<not> is_float_dtype (X_dtype a) then cast x else x"
  obtain rep where rep: "np_repeat v (getnnz_major indptr) = Inr rep" "length rep = length data"
    and nth: "\<And>i k. i < ?n \<Longrightarrow> indptr ! i \<le> k \<Longrightarrow> k < indptr ! (i + 1) \<Longrightarrow> rep ! k = v ! i"
    using repeat_segments [OF wf len] by blast
  obtain h1 self1 a1 where conv: "(if is_integer self then convert_to_float cast h self else Inr (h, self)) = Inr (h1, self1)"
      and g1: "get_adata h1 self1 = Inr a1" and a1: "X a1 = Sparse fm (map ?c data) indices indptr"
      and ov: "obs a1 = obs a" "var a1 = var a"
    using convert_step [OF get X dt] by blast
  let ?d' = "map (\<lambda>(x, y). f x y) (zip (map ?c data) rep)"
  let ?a' = "a1\<lparr>X := Sparse fm ?d' indices indptr\<rparr>"
  have ip: "inplace_vec f (map ?c data) rep = Inr ?d'" using rep(2) by (simp add: inplace_vec_def)
  have n1: "n_obs a1 = n_obs a" "n_vars a1 = n_vars a"
    using ov by (simp_all add: n_obs_def n_vars_def obs_names_def var_names_def)
  have ax: "(fm = CSR \<and> Some (if fm = CSR then (1::int) else 0) = Some 1)
          \<or> (fm = CSC \<and> Some (if fm = CSR then (1::int) else 0) = Some 0)"
    by (cases fm) simp_all
  have axlen: "(if Some (if fm = CSR then (1::int) else 0) \<noteq> Some 0 then n_obs a1 else n_vars a1)
             = length v"
    using len n1 by (cases fm) simp_all
  have sc: "scale f cast h self (Array1 v) (Some (if fm = CSR then 1 else 0))
         = Inr (put_adata h1 self1 ?a', self1)"
    by (rule scale_after_convert [OF conv g1 a1 ax axlen rep(1) ip])
  have g': "get_adata (put_adata h1 self1 ?a') self1 = Inr ?a'"
    using get_adata_Inr [OF g1] by (simp add: get_adata_def put_adata_def)
  have xa: "X ?a' = Sparse fm ?d' indices indptr" by simp
  have ld: "length ?d' = length data" using rep(2) by simp
  have el: "?d' ! k = f (?c (data ! k)) (v ! i)"
    if "i < length v" "indptr ! i \<le> k" "k < indptr ! (i + 1)" for i k
  proof -
    have s: "sorted indptr" and li: "length indptr = ?n + 1" and last: "indptr ! ?n = length data"
      using wf unfolding csx_wf_def by simp_all
    have "i + 1 \<le> ?n" using that(1) len by simp
    then have "indptr ! (i + 1) \<le> indptr ! ?n"
      using s li by (intro sorted_nth_mono) simp_all
    then have k: "k < length data" using last that(3) by linarith
    have r: "rep ! k = v ! i" using nth [of i k] that len by simp
    show ?thesis using k rep(2) r by simp
  qed
  show ?thesis
  proof (intro exI conjI allI impI)
    show "scale f cast h self (Array1 v) (Some (if fm = CSR then 1 else 0))
            = Inr (put_adata h1 self1 ?a', self1)" by (rule sc)
    show "get_adata (put_adata h1 self1 ?a') self1 = Inr ?a'" by (rule g')
    show "X ?a' = Sparse fm ?d' indices indptr" by (rule xa)
    show "length ?d' = length data" by (rule ld)
    show "?d' ! k = f (?c (data ! k)) (v ! i)"
      if "i < length v \<and> indptr ! i \<le> k \<and> k < indptr ! (i + 1)" for i k
      using el [of i k] that by blast
  qed
qed

text \<open>
  C3 (as amended). For a sparse store whose data is floating point, or is flagged as
  integer and is int32 or int64:
  \<^verbatim>\<open>divide\<close> and \<^verbatim>\<open>multiply\<close> along the axis that is not the compressed one (\<^verbatim>\<open>axis=0\<close>
  for CSR, \<^verbatim>\<open>axis=1\<close> for CSC) raise the orientation error; along the compressed axis,
  with a one-dimensional vector of the length of that axis, they return, the index
  arrays are unchanged, and every stored entry of major slice \<open>i\<close> has been divided, or
  multiplied, by \<open>v ! i\<close> (after the promotion to floating point, for integer data).
\<close>

theorem scale_sparse_orientation:
  fixes cast :: "'a::{inverse,times} \<Rightarrow> 'a"
  assumes get: "get_adata h self = Inr a"
      and X: "X a = Sparse fm data indices indptr"
      and dtype: "is_float_dtype (X_dtype a)
                  \<or> (is_integer self \<and> (X_dtype a = Int32 \<or> X_dtype a = Int64))"
  shows "divide cast h self val (Some (if fm = CSR then 0 else 1))
           = Inl (ValueError ''axis = 1 only works for CSC & axis = 0 only works for CSR'')
       \<and> multiply cast h self val (Some (if fm = CSR then 0 else 1))
           = Inl (ValueError ''axis = 1 only works for CSC & axis = 0 only works for CSR'')
       \<and> (csx_wf (if fm = CSR then n_obs a else n_vars a) data indices indptr
            \<and> length v = (if fm = CSR then n_obs a else n_vars a) \<longrightarrow>
            (\<exists>h' self' a' data'.
                divide cast h self (Array1 v) (Some (if fm = CSR then 1 else 0)) = Inr (h', self')
              \<and> get_adata h' self' = Inr a' \<and> X a' = Sparse fm data' indices indptr
              \<and> length data' = length data
              \<and> (\<forall>i k. i < length v \<and> indptr ! i \<le> k \<and> k < indptr ! (i + 1) \<longrightarrow>
                    data' ! k = (if is_integer self \<and> \<not> is_float_dtype (X_dtype a)
                                 then cast (data ! k) else data ! k) / v ! i))
          \<and> (\<exists>h' self' a' data'.
                multiply cast h self (Array1 v) (Some (if fm = CSR then 1 else 0)) = Inr (h', self')
              \<and> get_adata h' self' = Inr a' \<and> X a' = Sparse fm data' indices indptr
              \<and> length data' = length data
              \<and> (\<forall>i k. i < length v \<and> indptr ! i \<le> k \<and> k < indptr ! (i + 1) \<longrightarrow>
                    data' ! k = (if is_integer self \<and> \<not> is_float_dtype (X_dtype a)
                                 then cast (data ! k) else data ! k) * v ! i)))"
proof -
  have dt: "is_integer self \<longrightarrow> X_dtype a \<noteq> Int16"
    using dtype by (auto simp: is_float_dtype_def)
  show ?thesis
    unfolding divide_def multiply_def
    using scale_sparse_bad_axis [OF get X dt]
          scale_sparse_good_axis [OF get X dt, where f = "\<lambda>x y. x / y" and cast = cast and v = v]
          scale_sparse_good_axis [OF get X dt, where f = "\<lambda>x y. x * y" and cast = cast and v = v]
    by blast
qed

text \<open>
  C3 as stated fails on an integer store that is neither int32 nor int64: the promotion
  to floating point raises before the orientation is looked at, for either axis.
\<close>

theorem int16_scale_counterexample:
  "get_adata [ex_csr_int16] ex_self = Inr ex_csr_int16
   \<and> X ex_csr_int16 = Sparse CSR [2, 4, 6] [0, 2, 1] [0, 2, 3]
   \<and> n_obs ex_csr_int16 = 2
   \<and> divide (\<lambda>x. x) [ex_csr_int16] ex_self (Array1 [2, 3]) (Some 1)
        = Inl (ValueError ''Data is not float, int32, or int64'')
   \<and> divide (\<lambda>x. x) [ex_csr_int16] ex_self (Array1 [2, 3]) (Some 0)
        = Inl (ValueError ''Data is not float, int32, or int64'')"
  by code_simp


theorem scale_sparse_orientation_witness:
  "get_adata [ex_csr] ex_float_self = Inr ex_csr
   \<and> X ex_csr = Sparse CSR [2, 4, 6] [0, 2, 1] [0, 2, 3]
   \<and> is_float_dtype (X_dtype ex_csr)
   \<and> csx_wf (n_obs ex_csr) [2, 4, 6 :: rat] [0, 2, 1] [0, 2, 3]
   \<and> length [2, 3 :: rat] = n_obs ex_csr
   \<and> divide (\<lambda>x. x) [ex_csr] ex_float_self (Array1 [2, 3]) (Some 0)
        = Inl (ValueError ''axis = 1 only works for CSC & axis = 0 only works for CSR'')
   \<and> multiply (\<lambda>x. x) [ex_csr] ex_float_self (Array1 [2, 3]) (Some 0)
        = Inl (ValueError ''axis = 1 only works for CSC & axis = 0 only works for CSR'')
   \<and> divide (\<lambda>x. x) [ex_csr] ex_float_self (Array1 [2, 3]) (Some 1)
        = Inr ([ex_csr\<lparr>X := Sparse CSR [1, 2, 2] [0, 2, 1] [0, 2, 3]\<rparr>], ex_float_self)
   \<and> multiply (\<lambda>x. x) [ex_csr] ex_float_self (Array1 [2, 3]) (Some 1)
        = Inr ([ex_csr\<lparr>X := Sparse CSR [4, 8, 18] [0, 2, 1] [0, 2, 3]\<rparr>], ex_float_self)"
proof -
  have g: "get_adata [ex_csr] ex_float_self = Inr ex_csr" by code_simp
  have x: "X ex_csr = Sparse CSR [2, 4, 6] [0, 2, 1] [0, 2, 3]" by code_simp
  have f: "is_float_dtype (X_dtype ex_csr)" by code_simp
  then have d: "is_float_dtype (X_dtype ex_csr)
                \<or> (is_integer ex_float_self \<and> (X_dtype ex_csr = Int32 \<or> X_dtype ex_csr = Int64))"
    by simp
  have w: "csx_wf (n_obs ex_csr) [2, 4, 6 :: rat] [0, 2, 1] [0, 2, 3]" by code_simp
  have l: "length [2, 3 :: rat] = n_obs ex_csr" by code_simp
  have dv: "divide (\<lambda>x. x) [ex_csr] ex_float_self (Array1 [2, 3]) (Some 1)
        = Inr ([ex_csr\<lparr>X := Sparse CSR [1, 2, 2] [0, 2, 1] [0, 2, 3]\<rparr>], ex_float_self)"
    by code_simp
  have ml: "multiply (\<lambda>x. x) [ex_csr] ex_float_self (Array1 [2, 3]) (Some 1)
        = Inr ([ex_csr\<lparr>X := Sparse CSR [4, 8, 18] [0, 2, 1] [0, 2, 3]\<rparr>], ex_float_self)"
    by code_simp
  show ?thesis
    using scale_sparse_orientation [OF g x d, of "\<lambda>x. x" "Array1 [2, 3]" "[2, 3]"] g x f w l dv ml
    by simp
qed

subsection \<open>transform\<close>

lemma segment_map: "segment indptr (map g xs) i = map g (segment indptr xs i)"
  by (simp add: segment_def take_map drop_map)

lemma stored_values_map_sparse:
  "stored_values (Sparse fm (map g data) indices indptr) i j
     = map g (stored_values (Sparse fm data indices indptr) i j)"
proof -
  have *: "map fst (filter (\<lambda>(v, c). c = m) (zip (map g xs) ys))
         = map g (map fst (filter (\<lambda>(v, c). c = m) (zip xs ys)))" for m :: nat and xs ys
  proof (induction xs arbitrary: ys)
    case Nil
    then show ?case by simp
  next
    case (Cons x xs)
    then show ?case by (cases ys) auto
  qed
  show ?thesis
    by (cases fm) (simp_all add: stored_values_def segment_map *)
qed

lemma transform_sparse:
  assumes get: "get_adata h self = Inr a" and X: "X a = Sparse fm data indices indptr"
  shows "transform func True me cs h self
           = Inr (put_adata h self (a\<lparr>X := Sparse fm (map (\<lambda>v. call func (v + 1)) data) indices indptr,
                                      X_dtype := result_dtype func (X_dtype a)\<rparr>), self)"
  using get X by (simp add: transform_def bind_def map_matrix_def comp_def)

lemma get_put_adata:
  "get_adata h self = Inr a \<Longrightarrow> get_adata (put_adata h self a') self = Inr a'"
  by (auto simp: get_adata_def put_adata_def split: if_splits)

lemma transform_dense:
  assumes get: "get_adata h self = Inr a" and X: "X a = Dense rows"
      and tr: "transform func True me cs h self = Inr (h', self')"
  shows "self' = self \<and> (\<exists>d. h' = put_adata h self
            (a\<lparr>X := Dense (map (map (\<lambda>v. call func (v + 1))) rows), X_dtype := d\<rparr>))"
  using get X tr
  by (auto simp: transform_def bind_def map_matrix_def comp_def chunk_range_def Let_def
      split: if_splits sum.splits)

text \<open>
  C10. \<^verbatim>\<open>transform(fn, add_pseudocount=True)\<close> on a sparse backing returns; the index arrays
  are unchanged and every stored value \<open>v\<close> has become \<open>fn (v + 1)\<close>, so the values stored
  at a position are the images of those stored there before, and a position with no
  stored value (an implicit zero) still has none and still stands for zero, whatever
  \<open>fn 1\<close> is. On a dense backing, whenever the call returns, every element \<open>v\<close> of the
  matrix, zeros included, has become \<open>fn (v + 1)\<close>.
\<close>

theorem transform_pseudocount:
  fixes func :: "'a::{monoid_add,one} ufunc"
  assumes get: "get_adata h self = Inr a"
  shows "case X a of
           Sparse fm data indices indptr \<Rightarrow>
             (\<exists>h' a'. transform func True me cs h self = Inr (h', self)
                \<and> get_adata h' self = Inr a'
                \<and> X a' = Sparse fm (map (\<lambda>v. call func (v + 1)) data) indices indptr
                \<and> (\<forall>i j. stored_values (X a') i j
                            = map (\<lambda>v. call func (v + 1)) (stored_values (X a) i j))
                \<and> (\<forall>i j. stored_values (X a) i j = [] \<longrightarrow>
                            stored_values (X a') i j = [] \<and> entry (X a') i j = 0))
         | Dense rows \<Rightarrow>
             (\<forall>h' self' a'. transform func True me cs h self = Inr (h', self')
                  \<and> get_adata h' self' = Inr a' \<longrightarrow>
                X a' = Dense (map (map (\<lambda>v. call func (v + 1))) rows))"
proof (cases "X a")
  case (Dense rows)
  show ?thesis
    unfolding Dense matrix.case
  proof (intro allI impI)
    fix h' self' a'
    assume t: "transform func True me cs h self = Inr (h', self') \<and> get_adata h' self' = Inr a'"
    from transform_dense [OF get Dense] t obtain d where
      "self' = self" "h' = put_adata h self
            (a\<lparr>X := Dense (map (map (\<lambda>v. call func (v + 1))) rows), X_dtype := d\<rparr>)"
      by blast
    then show "X a' = Dense (map (map (\<lambda>v. call func (v + 1))) rows)"
      using t get_put_adata [OF get] by auto
  qed
next
  case (Sparse fm data indices indptr)
  let ?a' = "a\<lparr>X := Sparse fm (map (\<lambda>v. call func (v + 1)) data) indices indptr,
                X_dtype := result_dtype func (X_dtype a)\<rparr>"
  have 1: "transform func True me cs h self = Inr (put_adata h self ?a', self)"
    by (rule transform_sparse [OF get Sparse])
  have 2: "get_adata (put_adata h self ?a') self = Inr ?a'" by (rule get_put_adata [OF get])
  have 3: "X ?a' = Sparse fm (map (\<lambda>v. call func (v + 1)) data) indices indptr" by simp
  have 4: "stored_values (X ?a') i j = map (\<lambda>v. call func (v + 1)) (stored_values (X a) i j)" for i j
    unfolding 3 Sparse by (rule stored_values_map_sparse)
  have 5: "stored_values (X a) i j = [] \<longrightarrow> stored_values (X ?a') i j = [] \<and> entry (X ?a') i j = 0" for i j
    unfolding entry_def 4 by simp
  show ?thesis
    unfolding Sparse matrix.case
    apply (rule exI [where x = "put_adata h self ?a'"])
    apply (rule exI [where x = "?a'"])
    using 1 2 3 4 5 unfolding Sparse by blast
qed

theorem transform_pseudocount_witness:
  "get_adata [ex_csr] ex_float_self = Inr ex_csr
   \<and> X ex_csr = Sparse CSR [2, 4, 6] [0, 2, 1] [0, 2, 3]
   \<and> call ex_double 1 = 2
   \<and> transform ex_double True True 1000 [ex_csr] ex_float_self
        = Inr ([ex_csr\<lparr>X := Sparse CSR [6, 10, 14] [0, 2, 1] [0, 2, 3]\<rparr>], ex_float_self)
   \<and> stored_values (X ex_csr) 0 1 = []
   \<and> stored_values (Sparse CSR [6, 10, 14 :: rat] [0, 2, 1] [0, 2, 3]) 0 1 = []
   \<and> entry (Sparse CSR [6, 10, 14 :: rat] [0, 2, 1] [0, 2, 3]) 0 1 = 0
   \<and> get_adata [ex_dense_float] ex_float_self = Inr ex_dense_float
   \<and> X ex_dense_float = Dense [[1], [2], [3], [4], [0]]
   \<and> transform ex_double True False 1000 [ex_dense_float] ex_float_self
        = Inr ([ex_dense_float\<lparr>X := Dense [[4], [6], [8], [10], [2]]\<rparr>], ex_float_self)"
proof -
  have g1: "get_adata [ex_csr] ex_float_self = Inr ex_csr" by code_simp
  have g2: "get_adata [ex_dense_float] ex_float_self = Inr ex_dense_float" by code_simp
  have x1: "X ex_csr = Sparse CSR [2, 4, 6] [0, 2, 1] [0, 2, 3]" by code_simp
  have x2: "X ex_dense_float = Dense [[1], [2], [3], [4], [0]]" by code_simp
  have t1: "transform ex_double True True 1000 [ex_csr] ex_float_self
        = Inr ([ex_csr\<lparr>X := Sparse CSR [6, 10, 14] [0, 2, 1] [0, 2, 3]\<rparr>], ex_float_self)"
    by code_simp
  have t2: "transform ex_double True False 1000 [ex_dense_float] ex_float_self
        = Inr ([ex_dense_float\<lparr>X := Dense [[4], [6], [8], [10], [2]]\<rparr>], ex_float_self)"
    by code_simp
  have c: "call ex_double 1 = 2" by code_simp
  have s0: "stored_values (X ex_csr) 0 1 = []" by code_simp
  have s1: "stored_values (Sparse CSR [6, 10, 14 :: rat] [0, 2, 1] [0, 2, 3]) 0 1 = []" by code_simp
  have e: "entry (Sparse CSR [6, 10, 14 :: rat] [0, 2, 1] [0, 2, 3]) 0 1 = 0" by code_simp
  show ?thesis
    using transform_pseudocount [OF g1, of ex_double True 1000]
          transform_pseudocount [OF g2, of ex_double False 1000]
          g1 g2 x1 x2 t1 t2 c s0 s1 e
    by simp
qed

lemma transform_memory_efficient_raises:
  assumes "get_adata h self = Inr a" and "X a = Dense (r # rows)" and "r \<noteq> []"
      and "\<not> is_integer self" and "result_dtype func (X_dtype a) = X_dtype a" and "cs \<noteq> 0"
  shows "transform func add_pseudocount True cs h self = Inl TypeError"
  using assms
  by (simp add: transform_def bind_def map_matrix_def probe_def chunk_range_def Let_def)

text \<open>
  C7. On a dense floating-point store of five rows, with a function that preserves the
  dtype and \<^verbatim>\<open>chunksize=2\<close>: the memory-efficient path raises \<^verbatim>\<open>TypeError\<close> at
  \<^verbatim>\<open>range(np.ceil(...))\<close>, while the path with \<^verbatim>\<open>memory_efficient=False\<close> transforms every
  row. The chunk bounds of line 390 for the three chunks are \<open>(0, 2)\<close>, \<open>(2, 3)\<close> and
  \<open>(4, 4)\<close>, so that the loop, were it given the chunk numbers, would leave rows 3 and 4
  as they were.
\<close>

theorem transform_memory_efficient_chunks:
  "transform ex_double False True 2 [ex_dense_float] ex_float_self = Inl TypeError
   \<and> transform ex_double False False 2 [ex_dense_float] ex_float_self
        = Inr ([ex_dense_float\<lparr>X := Dense [[2], [4], [6], [8], [0]]\<rparr>], ex_float_self)
   \<and> map (\<lambda>i. chunk_bounds i 2 5) [0, 1, 2] = [(0, 2), (2, 3), (4, 4)]
   \<and> chunk_loop (call ex_double) 2 [[1], [2], [3], [4], [0]] [0, 1, 2]
        = [[2], [4], [6], [4], [0]]"
  by code_simp

subsection \<open>Bootstrap sampling\<close>

lemma length_draws [simp]: "length (draws randint g n k) = k"
  by (induction k arbitrary: g) (auto split: prod.splits)

lemma draws_bounded:
  assumes "\<forall>g m. 0 < m \<longrightarrow> fst (randint g m) < m" and "0 < n"
  shows "\<forall>x \<in> set (draws randint g n k). x < n"
proof (induction k arbitrary: g)
  case 0
  then show ?case by simp
next
  case (Suc k)
  obtain x g' where r: "randint g n = (x, g')" by (cases "randint g n")
  have "fst (randint g n) < n" using assms by blast
  then have "x < n" using r by simp
  then show ?case using Suc r by simp
qed

lemma length_reshape [simp]: "length (reshape b n xs) = b"
  by (induction b arbitrary: xs) auto

lemma reshape_rows:
  "length xs = b * n \<Longrightarrow> r \<in> set (reshape b n xs) \<Longrightarrow> length r = n \<and> set r \<subseteq> set xs"
proof (induction b arbitrary: xs)
  case 0
  then show ?case by simp
next
  case (Suc b)
  from Suc.prems(2) consider "r = take n xs" | "r \<in> set (reshape b n (drop n xs))" by auto
  then show ?case
  proof cases
    case 1
    then show ?thesis using Suc.prems(1) by (auto dest: in_set_takeD)
  next
    case 2
    have "length (drop n xs) = b * n" using Suc.prems(1) by simp
    from Suc.IH [OF this 2] show ?thesis by (auto dest: in_set_dropD)
  qed
qed

text \<open>
  C6. For a seed that the generator accepts, and a generator whose bounded draw stays
  below its bound: \<^verbatim>\<open>get_bootstraps\<close> returns a list of \<^verbatim>\<open>num_bootstraps\<close> index sequences,
  each of length \<open>n\<close>, the number of columns of the response, with every entry below \<open>n\<close>;
  and a call on any workflow object with the same seed, bootstrap count and number of
  response columns returns the same list.
\<close>

theorem get_bootstraps_deterministic:
  assumes seed: "seeding (random_seed w) = Inr g0"
      and bound: "\<forall>g m. 0 < m \<longrightarrow> fst (randint g m) < m"
  shows "\<exists>bs. get_bootstraps seeding randint w = Inr bs
           \<and> length bs = num_bootstraps w
           \<and> (\<forall>b \<in> set bs. length b = snd (shape (response w))
                  \<and> (\<forall>i \<in> set b. i < snd (shape (response w))))
           \<and> (\<forall>w'. random_seed w' = random_seed w \<and> num_bootstraps w' = num_bootstraps w
                  \<and> snd (shape (response w')) = snd (shape (response w))
                \<longrightarrow> get_bootstraps seeding randint w' = Inr bs)"
proof -
  let ?n = "snd (shape (response w))"
  let ?xs = "draws randint g0 ?n (num_bootstraps w * ?n)"
  let ?bs = "reshape (num_bootstraps w) ?n ?xs"
  have gb: "get_bootstraps seeding randint w = Inr ?bs"
    using seed by (simp add: get_bootstraps_def bind_def choice_def Let_def)
  have same: "get_bootstraps seeding randint w' = Inr ?bs"
    if "random_seed w' = random_seed w \<and> num_bootstraps w' = num_bootstraps w
          \<and> snd (shape (response w')) = ?n" for w' :: "'c workflow"
    using seed that by (simp add: get_bootstraps_def bind_def choice_def Let_def)
  have rows: "length b = ?n \<and> (\<forall>i \<in> set b. i < ?n)" if b: "b \<in> set ?bs" for b
  proof -
    have r: "length b = ?n \<and> set b \<subseteq> set ?xs"
      by (rule reshape_rows [OF _ b]) simp
    show ?thesis
    proof (cases "?n = 0")
      case True
      then show ?thesis using r by simp
    next
      case False
      then have "\<forall>x \<in> set ?xs. x < ?n" by (intro draws_bounded [OF bound]) simp
      then show ?thesis using r by blast
    qed
  qed
  show ?thesis
  proof (intro exI [where x = ?bs] conjI ballI allI impI)
    show "get_bootstraps seeding randint w = Inr ?bs" by (rule gb)
    show "length ?bs = num_bootstraps w" by simp
    show "length b = ?n" if "b \<in> set ?bs" for b using rows [OF that] by blast
    show "i < ?n" if "b \<in> set ?bs" "i \<in> set b" for b i using rows [OF that(1)] that(2) by blast
    show "get_bootstraps seeding randint w' = Inr ?bs"
      if "random_seed w' = random_seed w \<and> num_bootstraps w' = num_bootstraps w
          \<and> snd (shape (response w')) = ?n" for w' :: "'c workflow"
      by (rule same [OF that])
  qed
qed

theorem get_bootstraps_deterministic_witness:
  "ex_seeding (random_seed ex_workflow) = Inr 0
   \<and> get_bootstraps ex_seeding ex_randint ex_workflow = Inr [[0, 1, 2, 3, 4], [0, 0, 0, 0, 0]]
   \<and> get_bootstraps ex_seeding ex_randint
        (ex_workflow\<lparr>priors_file := ''other.tsv'', printed := [''a line'']\<rparr>)
        = Inr [[0, 1, 2, 3, 4], [0, 0, 0, 0, 0]]"
proof -
  have s: "ex_seeding (random_seed ex_workflow) = Inr 0" by code_simp
  have b: "\<forall>g m. 0 < m \<longrightarrow> fst (ex_randint g m) < m" by (simp add: ex_randint_def)
  have e: "get_bootstraps ex_seeding ex_randint ex_workflow = Inr [[0, 1, 2, 3, 4], [0, 0, 0, 0, 0]]"
    by code_simp
  from get_bootstraps_deterministic [where seeding = ex_seeding and w = ex_workflow and randint = ex_randint, OF s b] obtain bs where
    bs: "get_bootstraps ex_seeding ex_randint ex_workflow = Inr bs"
    and same: "\<And>w' :: int workflow. random_seed w' = random_seed ex_workflow \<and> num_bootstraps w' = num_bootstraps ex_workflow
                  \<and> snd (shape (response w')) = snd (shape (response ex_workflow))
                \<Longrightarrow> get_bootstraps ex_seeding ex_randint w' = Inr bs"
    by blast
  have "bs = [[0, 1, 2, 3, 4], [0, 0, 0, 0, 0]]" using bs e by simp
  moreover have "get_bootstraps ex_seeding ex_randint
        (ex_workflow\<lparr>priors_file := ''other.tsv'', printed := [''a line'']\<rparr>) = Inr bs"
    by (rule same) simp
  ultimately show ?thesis using s e by simp
qed

subsection \<open>The shared statistic of one bootstrap\<close>

lemma digit_char_inj: "n < 10 \<Longrightarrow> m < 10 \<Longrightarrow> digit_char n = digit_char m \<Longrightarrow> n = m"
proof -
  assume a: "n < 10" "m < 10" "digit_char n = digit_char m"
  then have "of_char (char_of (48 + n) :: char) = (of_char (char_of (48 + m) :: char) :: nat)"
    by (simp add: digit_char_def)
  then have "(48 + n) mod 256 = (48 + m) mod 256" by simp
  then show "n = m" using a(1,2) by simp
qed

lemma str_nat_ne: "str_nat n \<noteq> []"
  by (subst str_nat.simps) simp

lemma str_nat_inj: "str_nat n = str_nat m \<Longrightarrow> n = m"
proof (induction n arbitrary: m rule: str_nat.induct)
  case (1 n)
  show ?case
  proof (cases "n < 10")
    case True
    then have n: "str_nat n = [digit_char n]" by (subst str_nat.simps) simp
    show ?thesis
    proof (cases "m < 10")
      case mt: True
      then have "str_nat m = [digit_char m]" by (subst str_nat.simps) simp
      then show ?thesis using n "1.prems" True mt by (auto dest: digit_char_inj)
    next
      case False
      then have "str_nat m = str_nat (m div 10) @ [digit_char (m mod 10)]"
        by (subst str_nat.simps) simp
      then show ?thesis using n "1.prems" str_nat_ne [of "m div 10"] by (cases "str_nat (m div 10)") auto
    qed
  next
    case False
    then have n: "str_nat n = str_nat (n div 10) @ [digit_char (n mod 10)]"
      by (subst str_nat.simps) simp
    show ?thesis
    proof (cases "m < 10")
      case True
      then have "str_nat m = [digit_char m]" by (subst str_nat.simps) simp
      then show ?thesis using n "1.prems" str_nat_ne [of "n div 10"] by (cases "str_nat (n div 10)") auto
    next
      case mf: False
      then have m: "str_nat m = str_nat (m div 10) @ [digit_char (m mod 10)]"
        by (subst str_nat.simps) simp
      from n m "1.prems" have eq: "str_nat (n div 10) = str_nat (m div 10)"
        and d: "digit_char (n mod 10) = digit_char (m mod 10)" by simp_all
      have "n div 10 = m div 10" using "1.IH" [OF False eq] .
      moreover have "n mod 10 = m mod 10" using d by (intro digit_char_inj) simp_all
      ultimately show ?thesis by (metis div_mult_mod_eq)
    qed
  qed
qed

lemma mi_key_inj: "mi_key i = mi_key j \<Longrightarrow> i = j"
  by (simp add: mi_key_def str_nat_inj)

text \<open>
  C8. The key of the statistic is an injective function of the bootstrap ordinal. On
  rank 0, \<^verbatim>\<open>run_bootstrap\<close> computes the statistic and appends it to the values of that key
  before it runs the solver, which is handed the statistic and the store that holds it;
  when the solver has returned, one value is removed from the key in the store as the
  solver left it (and the call stays in that read if the solver left none). On any other
  rank the call stays in the read of the key, the store untouched, when the key holds no
  value; otherwise it runs the solver on the first value of the key and on the store as
  it found it, and returns the store as the solver left it, having put or removed
  nothing itself; and what it does is the same whatever the MI kernel computes.
\<close>

theorem run_bootstrap_protocol:
  "(mi_key idx = mi_key idx' \<longrightarrow> idx = idx')
   \<and> (rank = 0 \<longrightarrow>
        run_bootstrap k rank priors kvs x y idx bootstrap
          = (let clr = mi_driver_run k (reclustering k x bootstrap) (reclustering k y bootstrap);
                 published = kvs(mi_key idx := kvs (mi_key idx) @ [clr])
             in case bbsr_run k (ss_df_norm k x) (ss_df_norm k y) clr priors published rank
                       (own_check k published rank 25)
                of (betas, left) \<Rightarrow>
                  if left (mi_key idx) = [] then Blocked left
                  else Returned (left(mi_key idx := tl (left (mi_key idx)))) betas))
   \<and> (rank \<noteq> 0 \<and> kvs (mi_key idx) = [] \<longrightarrow>
        run_bootstrap k rank priors kvs x y idx bootstrap = Blocked kvs)
   \<and> (\<forall>v vs. rank \<noteq> 0 \<and> kvs (mi_key idx) = v # vs \<longrightarrow>
        run_bootstrap k rank priors kvs x y idx bootstrap
          = (case bbsr_run k (ss_df_norm k x) (ss_df_norm k y) v priors kvs rank
                    (own_check k kvs rank 25)
             of (betas, left) \<Rightarrow> Returned left betas))
   \<and> (rank \<noteq> 0 \<longrightarrow>
        run_bootstrap (k\<lparr>mi_driver_run := mi'\<rparr>) rank priors kvs x y idx bootstrap
          = run_bootstrap k rank priors kvs x y idx bootstrap)"
proof (intro conjI impI allI)
  show "idx = idx'" if "mi_key idx = mi_key idx'" using that by (rule mi_key_inj)
next
  assume r: "rank = 0"
  show "run_bootstrap k rank priors kvs x y idx bootstrap
          = (let clr = mi_driver_run k (reclustering k x bootstrap) (reclustering k y bootstrap);
                 published = kvs(mi_key idx := kvs (mi_key idx) @ [clr])
             in case bbsr_run k (ss_df_norm k x) (ss_df_norm k y) clr priors published rank
                       (own_check k published rank 25)
                of (betas, left) \<Rightarrow>
                  if left (mi_key idx) = [] then Blocked left
                  else Returned (left(mi_key idx := tl (left (mi_key idx)))) betas)"
    using r
    by (auto simp: run_bootstrap_def is_master_def kvs_put_def kvs_get_def Let_def
             split: prod.splits list.splits)
next
  assume "rank \<noteq> 0 \<and> kvs (mi_key idx) = []"
  then show "run_bootstrap k rank priors kvs x y idx bootstrap = Blocked kvs"
    by (simp add: run_bootstrap_def is_master_def kvs_view_def Let_def)
next
  fix v vs
  assume "rank \<noteq> 0 \<and> kvs (mi_key idx) = v # vs"
  then show "run_bootstrap k rank priors kvs x y idx bootstrap
          = (case bbsr_run k (ss_df_norm k x) (ss_df_norm k y) v priors kvs rank
                    (own_check k kvs rank 25)
             of (betas, left) \<Rightarrow> Returned left betas)"
    by (simp add: run_bootstrap_def is_master_def kvs_view_def Let_def split: prod.splits)
next
  assume "rank \<noteq> 0"
  then show "run_bootstrap (k\<lparr>mi_driver_run := mi'\<rparr>) rank priors kvs x y idx bootstrap
          = run_bootstrap k rank priors kvs x y idx bootstrap"
    by (simp add: run_bootstrap_def is_master_def Let_def split: option.splits prod.splits)
qed

theorem run_bootstrap_protocol_witness:
  "mi_key 3 = ''mi 3''
   \<and> (\<exists>left. run_bootstrap ex_kernels 0 1 (\<lambda>key. []) 4 2 3 [0, 2] = Returned left 17
        \<and> left ''mi 3'' = [] \<and> left ''seen'' = [10, 25])
   \<and> run_bootstrap ex_kernels 2 1 (\<lambda>key. []) 4 2 3 [0, 2] = Blocked (\<lambda>key. [])
   \<and> (\<exists>left. run_bootstrap ex_kernels 2 1 ((\<lambda>key. [])(''mi 3'' := [10])) 4 2 3 [0, 2]
                = Returned left 19
        \<and> left ''mi 3'' = [10] \<and> left ''seen'' = [10, 27])
   \<and> (\<exists>left. run_bootstrap (ex_kernels\<lparr>mi_driver_run := (\<lambda>x y. 0)\<rparr>) 2 1
                  ((\<lambda>key. [])(''mi 3'' := [10])) 4 2 3 [0, 2]
                = Returned left 19
        \<and> left ''mi 3'' = [10] \<and> left ''seen'' = [10, 27])"
proof -
  have k: "mi_key 3 = ''mi 3''" by code_simp
  show ?thesis
    using run_bootstrap_protocol [of 3 3 0 ex_kernels 1 "\<lambda>key. []" 4 2 "[0, 2]"]
          run_bootstrap_protocol [of 3 3 2 ex_kernels 1 "\<lambda>key. []" 4 2 "[0, 2]"]
          run_bootstrap_protocol [of 3 3 2 ex_kernels 1 "(\<lambda>key. [])(''mi 3'' := [10])" 4 2
                                     "[0, 2]" "\<lambda>x y. 0"]
    by (simp add: k ex_kernels_def Let_def)
qed

subsection \<open>Duplicate labels in the priors\<close>

lemma warn_if_duplicates_caught:
  assumes "\<forall>e. index_values_unique env labels = Inl e \<longrightarrow> (\<exists>m. e = ValueError m)"
  shows "warn_if_duplicates env labels msg w
           = Inr (w\<lparr>printed := printed w @
                    (case index_values_unique env labels of
                       Inl (ValueError m) \<Rightarrow> [msg, m] | _ \<Rightarrow> [])\<rparr>)"
proof (cases "index_values_unique env labels")
  case (Inl e)
  then obtain m where "e = ValueError m" using assms by blast
  then show ?thesis using Inl by (simp add: warn_if_duplicates_def vprint_def)
next
  case (Inr b)
  then show ?thesis by (simp add: warn_if_duplicates_def)
qed

lemma warn_if_duplicates_propagates:
  assumes "index_values_unique env labels = Inl e" and "\<forall>m. e \<noteq> ValueError m"
  shows "warn_if_duplicates env labels msg w = Inl e"
  using assms by (cases e) (simp_all add: warn_if_duplicates_def)

lemma read_as_loaded:
  assumes "\<not> split_priors_for_gold_standard w" and "\<not> split_gold_standard_for_crossvalidation w"
      and "input_dataframe env (priors_file w) = Inr p"
      and "input_dataframe env (gold_standard_file w) = Inr g"
  shows "read_gold_standard_and_priors env w = Inr (w\<lparr>priors_data := Some p, gold_standard := Some g\<rparr>)"
  using assms by (simp add: read_gold_standard_and_priors_def bind_def Let_def)

text \<open>
  C9 (as amended). When the priors and the gold standard have been read (and split, if
  asked for): if each of the two uniqueness checks, of the gene labels and of the
  regulator labels, returns or raises \<^verbatim>\<open>ValueError\<close>, then
  \<^verbatim>\<open>set_gold_standard_and_priors\<close> returns, and the workflow is as the reading left it,
  priors and gold standard included, but for the lines printed: for each failed check,
  its warning and the error's message. If a check raises any other exception, that
  exception leaves the method.
\<close>

theorem duplicate_priors_only_warn:
  assumes read: "read_gold_standard_and_priors env w = Inr w1"
      and pr: "priors_data w1 = Some p"
  shows "((\<forall>e. index_values_unique env (df_index p) = Inl e \<longrightarrow> (\<exists>m. e = ValueError m))
          \<and> (\<forall>e. index_values_unique env (df_columns p) = Inl e \<longrightarrow> (\<exists>m. e = ValueError m)) \<longrightarrow>
            set_gold_standard_and_priors env w
              = Inr (w1\<lparr>printed := printed w1
                       @ (case index_values_unique env (df_index p) of
                            Inl (ValueError m) \<Rightarrow> [''Duplicate gene(s) in prior index'', m]
                          | _ \<Rightarrow> [])
                       @ (case index_values_unique env (df_columns p) of
                            Inl (ValueError m) \<Rightarrow> [''Duplicate tf(s) in prior index'', m]
                          | _ \<Rightarrow> [])\<rparr>))
       \<and> (\<forall>e. index_values_unique env (df_index p) = Inl e \<and> (\<forall>m. e \<noteq> ValueError m) \<longrightarrow>
            set_gold_standard_and_priors env w = Inl e)
       \<and> (\<forall>e. (\<forall>e'. index_values_unique env (df_index p) = Inl e' \<longrightarrow> (\<exists>m. e' = ValueError m))
              \<and> index_values_unique env (df_columns p) = Inl e \<and> (\<forall>m. e \<noteq> ValueError m) \<longrightarrow>
            set_gold_standard_and_priors env w = Inl e)"
proof (intro conjI allI impI)
  assume a: "(\<forall>e. index_values_unique env (df_index p) = Inl e \<longrightarrow> (\<exists>m. e = ValueError m))
          \<and> (\<forall>e. index_values_unique env (df_columns p) = Inl e \<longrightarrow> (\<exists>m. e = ValueError m))"
  show "set_gold_standard_and_priors env w
              = Inr (w1\<lparr>printed := printed w1
                       @ (case index_values_unique env (df_index p) of
                            Inl (ValueError m) \<Rightarrow> [''Duplicate gene(s) in prior index'', m]
                          | _ \<Rightarrow> [])
                       @ (case index_values_unique env (df_columns p) of
                            Inl (ValueError m) \<Rightarrow> [''Duplicate tf(s) in prior index'', m]
                          | _ \<Rightarrow> [])\<rparr>)"
    using read pr a
    by (simp add: set_gold_standard_and_priors_def bind_def the_frame_def
                  warn_if_duplicates_caught)
next
  fix e
  assume "index_values_unique env (df_index p) = Inl e \<and> (\<forall>m. e \<noteq> ValueError m)"
  then show "set_gold_standard_and_priors env w = Inl e"
    using read pr
    by (simp add: set_gold_standard_and_priors_def bind_def the_frame_def
                  warn_if_duplicates_propagates)
next
  fix e
  assume a: "(\<forall>e'. index_values_unique env (df_index p) = Inl e' \<longrightarrow> (\<exists>m. e' = ValueError m))
              \<and> index_values_unique env (df_columns p) = Inl e \<and> (\<forall>m. e \<noteq> ValueError m)"
  then have 1: "warn_if_duplicates env (df_columns p) msg w' = Inl e" for msg w'
    by (simp add: warn_if_duplicates_propagates)
  show "set_gold_standard_and_priors env w = Inl e"
    using read pr a 1
    by (simp add: set_gold_standard_and_priors_def bind_def the_frame_def
                  warn_if_duplicates_caught)
qed


text \<open>
  C9 as stated fails when the check reports duplicate labels with an exception other
  than \<^verbatim>\<open>ValueError\<close>: the \<^verbatim>\<open>except\<close> clause does not catch it.
\<close>

theorem typeerror_check_counterexample:
  "read_gold_standard_and_priors ex_typeerror_check ex_workflow
     = Inr (ex_workflow\<lparr>priors_data := Some ex_priors, gold_standard := Some ex_gold\<rparr>)
   \<and> \<not> distinct (df_index ex_priors)
   \<and> index_values_unique ex_typeerror_check (df_index ex_priors) = Inl TypeError
   \<and> set_gold_standard_and_priors ex_typeerror_check ex_workflow = Inl TypeError"
  by code_simp


theorem duplicate_priors_only_warn_witness:
  "read_gold_standard_and_priors ex_collaborators ex_workflow
     = Inr (ex_workflow\<lparr>priors_data := Some ex_priors, gold_standard := Some ex_gold\<rparr>)
   \<and> \<not> distinct (df_index ex_priors) \<and> distinct (df_columns ex_priors)
   \<and> index_values_unique ex_collaborators (df_index ex_priors)
        = Inl (ValueError ''Index values are not unique'')
   \<and> index_values_unique ex_collaborators (df_columns ex_priors) = Inr True
   \<and> set_gold_standard_and_priors ex_collaborators ex_workflow
     = Inr (ex_workflow\<lparr>priors_data := Some ex_priors, gold_standard := Some ex_gold,
              printed := [''Duplicate gene(s) in prior index'', ''Index values are not unique'']\<rparr>)
   \<and> index_values_unique ex_typeerror_check (df_index ex_priors) = Inl TypeError
   \<and> set_gold_standard_and_priors ex_typeerror_check ex_workflow = Inl TypeError
   \<and> index_values_unique ex_typeerror_on_tfs (df_index ex_priors)
        = Inl (ValueError ''Index values are not unique'')
   \<and> index_values_unique ex_typeerror_on_tfs (df_columns ex_priors) = Inl TypeError
   \<and> set_gold_standard_and_priors ex_typeerror_on_tfs ex_workflow = Inl TypeError"
proof -
  let ?w1 = "ex_workflow\<lparr>priors_data := Some ex_priors, gold_standard := Some ex_gold\<rparr>"
  have r: "read_gold_standard_and_priors ex_collaborators ex_workflow = Inr ?w1"
          "read_gold_standard_and_priors ex_typeerror_check ex_workflow = Inr ?w1"
          "read_gold_standard_and_priors ex_typeerror_on_tfs ex_workflow = Inr ?w1"
    by code_simp+
  have p: "priors_data ?w1 = Some ex_priors" by simp
  have d: "\<not> distinct (df_index ex_priors)" "distinct (df_columns ex_priors)" by code_simp+
  have c: "index_values_unique ex_collaborators (df_index ex_priors)
        = Inl (ValueError ''Index values are not unique'')"
     "index_values_unique ex_collaborators (df_columns ex_priors) = Inr True"
    using d by (simp_all add: ex_collaborators_def)
  have c2: "index_values_unique ex_typeerror_check (df_index ex_priors) = Inl TypeError"
    using d by (simp add: ex_typeerror_check_def)
  have c3: "index_values_unique ex_typeerror_on_tfs (df_index ex_priors)
        = Inl (ValueError ''Index values are not unique'')"
     "index_values_unique ex_typeerror_on_tfs (df_columns ex_priors) = Inl TypeError"
    by (simp_all add: ex_typeerror_on_tfs_def ex_priors_def)
  have pw: "printed ex_workflow = []" by (simp add: ex_workflow_def)
  have 1: "set_gold_standard_and_priors ex_collaborators ex_workflow
     = Inr (ex_workflow\<lparr>priors_data := Some ex_priors, gold_standard := Some ex_gold,
              printed := [''Duplicate gene(s) in prior index'', ''Index values are not unique'']\<rparr>)"
    using duplicate_priors_only_warn [OF r(1) p] c by (simp add: pw)
  have 2: "set_gold_standard_and_priors ex_typeerror_check ex_workflow = Inl TypeError"
    using duplicate_priors_only_warn [OF r(2) p] c2 by simp
  have 3: "set_gold_standard_and_priors ex_typeerror_on_tfs ex_workflow = Inl TypeError"
    using duplicate_priors_only_warn [OF r(3) p] c3 by simp
  show ?thesis
    using r(1) d c c2 c3 1 2 3 by simp
qed

end
